theory Spec2Isabelle
  imports Complex_Main
begin

section \<open>In-memory state persistence of pydantic_graph\<close>

text \<open>
  The development embeds \<^verbatim>\<open>pydantic_graph/persistence/memory.py\<close>: the two in-memory
  persistence backends \<^verbatim>\<open>SimpleStatePersistence\<close> and \<^verbatim>\<open>FullStatePersistence\<close>.
\<close>

subsection \<open>Python exceptions\<close>

text \<open>
  The exception classes that occur in the module or can leave a node's \<^verbatim>\<open>run\<close>, and the
  two error classes of the graph (setup and runtime errors).
  \<^verbatim>\<open>isinstance_Exception\<close> is Python's \<^verbatim>\<open>isinstance(e, Exception)\<close>, the test made by
  an \<^verbatim>\<open>except Exception:\<close> clause: \<^verbatim>\<open>asyncio.CancelledError\<close> (since Python 3.8),
  \<^verbatim>\<open>KeyboardInterrupt\<close>, \<^verbatim>\<open>SystemExit\<close> and \<^verbatim>\<open>GeneratorExit\<close> derive from
  \<^verbatim>\<open>BaseException\<close> directly and are not instances of \<^verbatim>\<open>Exception\<close>.
\<close>

datatype exc_class =
    AssertionError | LookupError | TypeError | RuntimeError | ValueError | AttributeError
  | GraphSetupError | GraphRuntimeError
  | CancelledError | KeyboardInterrupt | SystemExit | GeneratorExit

datatype py_exception = PyExc (exc_type: exc_class) (exc_msg: string)

fun isinstance_Exception :: "py_exception \<Rightarrow> bool" where
  "isinstance_Exception (PyExc CancelledError m) = False"
| "isinstance_Exception (PyExc KeyboardInterrupt m) = False"
| "isinstance_Exception (PyExc SystemExit m) = False"
| "isinstance_Exception (PyExc GeneratorExit m) = False"
| "isinstance_Exception (PyExc c m) = True"

subsection \<open>Objects and the store\<close>

text \<open>
  Python passes the state, the node and the end marker by reference, and the backends
  either keep the reference or a copy of the object. A reference is an index into the
  store; the store keeps state objects, node objects (the node id of the node's class with
  the payload) and end markers (their \<^verbatim>\<open>data\<close>) apart, as the source's types do. The
  objects reachable from a state, node or end marker are one cell of the store.
\<close>

type_synonym ref = nat

record ('s, 'p, 'd) store =
  states :: "'s list"
  nodes :: "(string \<times> 'p) list"
  ends :: "'d list"

text \<open>\<^verbatim>\<open>copy.deepcopy(state)\<close>: a new object with the same contents.\<close>

definition deepcopy :: "ref \<Rightarrow> ('s, 'p, 'd) store \<Rightarrow> ref \<times> ('s, 'p, 'd) store" where
  "deepcopy r st = (length (states st), st\<lparr>states := states st @ [states st ! r]\<rparr>)"

text \<open>
  Modelled from the spec: \<^verbatim>\<open>BaseNode.deep_copy\<close> and \<^verbatim>\<open>End.deep_copy_data\<close> of
  \<^verbatim>\<open>pydantic_graph/nodes.py\<close>, which is not among the sources. The spec (4.A, 3):
  \<^verbatim>\<open>deep_copy() -> Node\<close> returns an independent clone of its payload; the end marker
  supports structural copy of its data.
\<close>

definition deep_copy_node :: "ref \<Rightarrow> ('s, 'p, 'd) store \<Rightarrow> ref \<times> ('s, 'p, 'd) store" where
  "deep_copy_node r st = (length (nodes st), st\<lparr>nodes := nodes st @ [nodes st ! r]\<rparr>)"

definition deep_copy_data :: "ref \<Rightarrow> ('s, 'p, 'd) store \<Rightarrow> ref \<times> ('s, 'p, 'd) store" where
  "deep_copy_data r st = (length (ends st), st\<lparr>ends := ends st @ [ends st ! r]\<rparr>)"

subsection \<open>Snapshots\<close>

text \<open>
  Modelled from the spec: the classes \<^verbatim>\<open>NodeSnapshot\<close> and \<^verbatim>\<open>EndSnapshot\<close> of
  \<^verbatim>\<open>pydantic_graph/persistence/__init__.py\<close>, which is not among the sources. The spec
  (3): \<^verbatim>\<open>NodeSnapshot { id, kind='node', state, node, start_ts?, duration?, status }\<close>
  with status one of created, pending, running, success, error, and
  \<^verbatim>\<open>EndSnapshot { id, kind='end', state, result, ts }\<close>. The constructor of the datatype
  \<open>Snapshot\<close> is the field \<^verbatim>\<open>kind\<close>. A timestamp is a number of microseconds since the
  epoch (UTC), a duration a number of seconds.
\<close>

datatype SnapshotStatus = created | pending | running | success | error

type_synonym datetime = int

record NodeSnapshot =
  state :: "ref option"
  node :: ref
  start_ts :: "datetime option"
  duration :: "real option"
  status :: SnapshotStatus
  snapshot_id :: string

record EndSnapshot =
  end_state :: "ref option"
  result :: ref
  ts :: datetime
  end_snapshot_id :: string

datatype Snapshot = NodeSnap NodeSnapshot | EndSnap EndSnapshot

text \<open>The attribute \<^verbatim>\<open>id\<close> of either kind of snapshot.\<close>

fun id_of :: "Snapshot \<Rightarrow> string" where
  "id_of (NodeSnap s) = snapshot_id s"
| "id_of (EndSnap s) = end_snapshot_id s"

subsection \<open>Snapshot identifiers\<close>

text \<open>Python's \<^verbatim>\<open>str\<close> of a natural number: its decimal digits.\<close>

definition digit_char :: "nat \<Rightarrow> char" where
  "digit_char n = ''0123456789'' ! n"

fun str_nat :: "nat \<Rightarrow> string" where
  "str_nat n =
     (if n < 10 then [digit_char n]
      else str_nat (n div 10) @ [digit_char (n mod 10)])"

declare str_nat.simps [simp del]

text \<open>
  Modelled from the spec: the snapshot-ID allocator, which is not among the sources. The
  spec (4.B, 4.F): identifiers are \<^verbatim>\<open>"{node_id}:{seq}"\<close> for node snapshots and
  \<^verbatim>\<open>"end:{seq}"\<close> for end snapshots, where \<^verbatim>\<open>seq\<close> is a counter starting at 1,
  incremented on every insertion. The spec calls the counter per-persistence, but
  \<^verbatim>\<open>test_dump_load_state\<close> expects \<^verbatim>\<open>Foo:4\<close> and \<^verbatim>\<open>end:5\<close> in a persistence created
  after three identifiers were given out to another one, and neither persistence class has
  a counter: the counter is the allocator's own. \<open>allocate prefix a\<close> is the identifier
  given out when \<open>a\<close> identifiers have been given out before, with the new count.
  \<open>id_seq\<close> reads the number at the end of an identifier, after its last colon.
\<close>

definition generate_snapshot_id :: "string \<Rightarrow> nat \<Rightarrow> string" where
  "generate_snapshot_id node_id n = node_id @ '':'' @ str_nat n"

definition allocate :: "string \<Rightarrow> nat \<Rightarrow> string \<times> nat" where
  "allocate prefix a = (generate_snapshot_id prefix (a + 1), a + 1)"

definition digit_val :: "char \<Rightarrow> nat" where
  "digit_val c = of_char c - 48"

definition nat_of_str :: "string \<Rightarrow> nat" where
  "nat_of_str s = foldl (\<lambda>acc c. 10 * acc + digit_val c) 0 s"

definition id_seq :: "string \<Rightarrow> nat" where
  "id_seq sid = nat_of_str (rev (takeWhile (\<lambda>c. c \<noteq> CHR '':'') (rev sid)))"



text \<open>
  Modelled from the spec: the constructors of the snapshot classes. The identifier that
  \<^verbatim>\<open>NodeSnapshot(state=..., node=...)\<close> and \<^verbatim>\<open>EndSnapshot(state=..., result=...)\<close> get
  from the allocator is the argument \<open>sid\<close>.
\<close>

definition new_NodeSnapshot :: "ref option \<Rightarrow> ref \<Rightarrow> string \<Rightarrow> NodeSnapshot" where
  "new_NodeSnapshot s n sid =
     \<lparr>state = s, node = n, start_ts = None, duration = None, status = created,
      snapshot_id = sid\<rparr>"

definition new_EndSnapshot :: "ref option \<Rightarrow> ref \<Rightarrow> datetime \<Rightarrow> string \<Rightarrow> EndSnapshot" where
  "new_EndSnapshot s r now sid =
     \<lparr>end_state = s, result = r, ts = now, end_snapshot_id = sid\<rparr>"

subsection \<open>The persistence classes\<close>

text \<open>
  Both classes declare \<^verbatim>\<open>deep_copy\<close> and define \<^verbatim>\<open>prep_state\<close> with the same body; the
  common part is the parent record. \<^verbatim>\<open>SimpleStatePersistence()\<close> and
  \<^verbatim>\<open>FullStatePersistence()\<close> are the dataclass defaults. In \<^verbatim>\<open>snapshot_node\<close> and
  \<^verbatim>\<open>snapshot_end\<close>, \<open>sid\<close> is the identifier that the constructor of the snapshot takes
  from the allocator and \<open>now\<close> the value of \<^verbatim>\<open>now_utc()\<close> for \<^verbatim>\<open>ts\<close>.
\<close>

record StatePersistence =
  deep_copy :: bool

record SimpleStatePersistence = StatePersistence +
  last_snapshot :: "Snapshot option"

record 'a FullStatePersistence = StatePersistence +
  history :: "Snapshot list"
  snapshots_type_adapter :: "'a option"

definition SimpleStatePersistence_new :: SimpleStatePersistence where
  "SimpleStatePersistence_new = \<lparr>deep_copy = False, last_snapshot = None\<rparr>"

definition FullStatePersistence_new :: "'a FullStatePersistence" where
  "FullStatePersistence_new =
     \<lparr>deep_copy = True, history = [], snapshots_type_adapter = None\<rparr>"

definition prep_state ::
  "'x StatePersistence_scheme \<Rightarrow> ref option \<Rightarrow> ('s, 'p, 'd) store
     \<Rightarrow> ref option \<times> ('s, 'p, 'd) store" where
  "prep_state self s st =
     (if \<not> deep_copy self \<or> s = None then (s, st)
      else (case deepcopy (the s) st of (r, st') \<Rightarrow> (Some r, st')))"

text \<open>The conditional expressions \<^verbatim>\<open>x.deep_copy() if self.deep_copy else x\<close>.\<close>

definition prep_node ::
  "'x StatePersistence_scheme \<Rightarrow> ref \<Rightarrow> ('s, 'p, 'd) store \<Rightarrow> ref \<times> ('s, 'p, 'd) store" where
  "prep_node self n st = (if deep_copy self then deep_copy_node n st else (n, st))"

definition prep_end ::
  "'x StatePersistence_scheme \<Rightarrow> ref \<Rightarrow> ('s, 'p, 'd) store \<Rightarrow> ref \<times> ('s, 'p, 'd) store" where
  "prep_end self e st = (if deep_copy self then deep_copy_data e st else (e, st))"

subsubsection \<open>SimpleStatePersistence\<close>

definition snapshot_node_simple ::
  "SimpleStatePersistence \<Rightarrow> ref option \<Rightarrow> ref \<Rightarrow> string \<Rightarrow> ('s, 'p, 'd) store
     \<Rightarrow> SimpleStatePersistence \<times> ('s, 'p, 'd) store" where
  "snapshot_node_simple self s next_node sid st =
     (case prep_state self s st of (s', st1) \<Rightarrow>
      case prep_node self next_node st1 of (n', st2) \<Rightarrow>
        (self\<lparr>last_snapshot := Some (NodeSnap (new_NodeSnapshot s' n' sid))\<rparr>, st2))"

definition snapshot_end_simple ::
  "SimpleStatePersistence \<Rightarrow> ref option \<Rightarrow> ref \<Rightarrow> datetime \<Rightarrow> string
     \<Rightarrow> ('s, 'p, 'd) store \<Rightarrow> SimpleStatePersistence \<times> ('s, 'p, 'd) store" where
  "snapshot_end_simple self s e now sid st =
     (case prep_state self s st of (s', st1) \<Rightarrow>
      case prep_end self e st1 of (e', st2) \<Rightarrow>
        (self\<lparr>last_snapshot := Some (EndSnap (new_EndSnapshot s' e' now sid))\<rparr>, st2))"

text \<open>
  \<^verbatim>\<open>record_run\<close> is an asynchronous context manager: the part before \<^verbatim>\<open>yield\<close> runs on
  entry of the \<^verbatim>\<open>async with\<close> block, the handlers run when the block is left. \<open>now\<close> is
  the value of \<^verbatim>\<open>now_utc()\<close>, \<open>t0\<close> and \<open>t1\<close> are the two readings of \<^verbatim>\<open>perf_counter()\<close>.
  The block \<open>body\<close> acts on its own state \<open>'w\<close> (the store, for a node's \<^verbatim>\<open>run\<close>) and
  either returns a value or raises. The repr of the identifiers in the last assertion's
  message is written with plain quotes.
\<close>

definition record_run_enter_simple ::
  "SimpleStatePersistence \<Rightarrow> string \<Rightarrow> datetime \<Rightarrow> py_exception + SimpleStatePersistence" where
  "record_run_enter_simple self sid now =
     (case last_snapshot self of
        None \<Rightarrow> Inl (PyExc AssertionError ''No snapshot to record'')
      | Some (EndSnap e) \<Rightarrow> Inl (PyExc AssertionError ''Only NodeSnapshot can be recorded'')
      | Some (NodeSnap s) \<Rightarrow>
          if sid \<noteq> snapshot_id s
          then Inl (PyExc AssertionError
                 (''snapshot_id must match the last snapshot ID: '' @ [CHR 0x27] @ sid
                    @ [CHR 0x27] @ '' != '' @ [CHR 0x27] @ snapshot_id s @ [CHR 0x27]))
          else Inr (self\<lparr>last_snapshot :=
                 Some (NodeSnap (s\<lparr>status := running, start_ts := Some now\<rparr>))\<rparr>))"

text \<open>
  The assignments \<^verbatim>\<open>self.last_snapshot.duration = d\<close> and
  \<^verbatim>\<open>self.last_snapshot.status = v\<close> of the two handlers.
\<close>

fun finish :: "real \<Rightarrow> SnapshotStatus \<Rightarrow> Snapshot \<Rightarrow> Snapshot" where
  "finish d v (NodeSnap s) = NodeSnap (s\<lparr>duration := Some d, status := v\<rparr>)"
| "finish d v (EndSnap e) = EndSnap e"

definition record_run_exit_simple ::
  "SimpleStatePersistence \<Rightarrow> real \<Rightarrow> real \<Rightarrow> py_exception + 'a \<Rightarrow> SimpleStatePersistence" where
  "record_run_exit_simple self t0 t1 r =
     (case r of
        Inl e \<Rightarrow>
          if isinstance_Exception e
          then self\<lparr>last_snapshot := map_option (finish (t1 - t0) error) (last_snapshot self)\<rparr>
          else self
      | Inr v \<Rightarrow>
          self\<lparr>last_snapshot := map_option (finish (t1 - t0) success) (last_snapshot self)\<rparr>)"

definition record_run_simple ::
  "SimpleStatePersistence \<Rightarrow> string \<Rightarrow> datetime \<Rightarrow> real \<Rightarrow> real
     \<Rightarrow> ('w \<Rightarrow> (py_exception + 'a) \<times> 'w) \<Rightarrow> 'w
     \<Rightarrow> (py_exception + 'a) \<times> SimpleStatePersistence \<times> 'w" where
  "record_run_simple self sid now t0 t1 body w =
     (case record_run_enter_simple self sid now of
        Inl e \<Rightarrow> (Inl e, self, w)
      | Inr self1 \<Rightarrow>
          (case body w of (r, w') \<Rightarrow> (r, record_run_exit_simple self1 t0 t1 r, w')))"

definition restore_simple :: "SimpleStatePersistence \<Rightarrow> Snapshot option" where
  "restore_simple self = last_snapshot self"

subsubsection \<open>FullStatePersistence\<close>

definition snapshot_node_full ::
  "'a FullStatePersistence \<Rightarrow> ref option \<Rightarrow> ref \<Rightarrow> string \<Rightarrow> ('s, 'p, 'd) store
     \<Rightarrow> 'a FullStatePersistence \<times> ('s, 'p, 'd) store" where
  "snapshot_node_full self s next_node sid st =
     (case prep_state self s st of (s', st1) \<Rightarrow>
      case prep_node self next_node st1 of (n', st2) \<Rightarrow>
        (self\<lparr>history := history self @ [NodeSnap (new_NodeSnapshot s' n' sid)]\<rparr>, st2))"

definition snapshot_end_full ::
  "'a FullStatePersistence \<Rightarrow> ref option \<Rightarrow> ref \<Rightarrow> datetime \<Rightarrow> string
     \<Rightarrow> ('s, 'p, 'd) store \<Rightarrow> 'a FullStatePersistence \<times> ('s, 'p, 'd) store" where
  "snapshot_end_full self s e now sid st =
     (case prep_state self s st of (s', st1) \<Rightarrow>
      case prep_end self e st1 of (e', st2) \<Rightarrow>
        (self\<lparr>history := history self @ [EndSnap (new_EndSnapshot s' e' now sid)]\<rparr>, st2))"

text \<open>
  \<^verbatim>\<open>next(s for s in self.history if s.id == snapshot_id)\<close>: the position of the first
  snapshot with the identifier, \<open>None\<close> for \<^verbatim>\<open>StopIteration\<close>.
\<close>

fun find_snapshot :: "Snapshot list \<Rightarrow> string \<Rightarrow> nat option" where
  "find_snapshot [] sid = None"
| "find_snapshot (s # ss) sid =
     (if id_of s = sid then Some 0 else map_option Suc (find_snapshot ss sid))"

datatype 'a recording = Recording (recorded: "'a FullStatePersistence") (position: nat)

definition record_run_enter_full ::
  "'a FullStatePersistence \<Rightarrow> string \<Rightarrow> datetime \<Rightarrow> py_exception + 'a recording" where
  "record_run_enter_full self sid now =
     (case find_snapshot (history self) sid of
        None \<Rightarrow> Inl (PyExc LookupError (''No snapshot found with id='' @ sid))
      | Some i \<Rightarrow>
          (case history self ! i of
             EndSnap e \<Rightarrow> Inl (PyExc AssertionError ''Only NodeSnapshot can be recorded'')
           | NodeSnap s \<Rightarrow>
               Inr (Recording
                 (self\<lparr>history := (history self)
                    [i := NodeSnap (s\<lparr>status := running, start_ts := Some now\<rparr>)]\<rparr>) i)))"

definition record_run_exit_full ::
  "'a recording \<Rightarrow> real \<Rightarrow> real \<Rightarrow> py_exception + 'b \<Rightarrow> 'a FullStatePersistence" where
  "record_run_exit_full rec t0 t1 r =
     (case rec of Recording self i \<Rightarrow>
       (case r of
          Inl e \<Rightarrow>
            if isinstance_Exception e
            then self\<lparr>history := (history self)[i := finish (t1 - t0) error (history self ! i)]\<rparr>
            else self
        | Inr v \<Rightarrow>
            self\<lparr>history := (history self)[i := finish (t1 - t0) success (history self ! i)]\<rparr>))"

definition record_run_full ::
  "'a FullStatePersistence \<Rightarrow> string \<Rightarrow> datetime \<Rightarrow> real \<Rightarrow> real
     \<Rightarrow> ('w \<Rightarrow> (py_exception + 'b) \<times> 'w) \<Rightarrow> 'w
     \<Rightarrow> (py_exception + 'b) \<times> 'a FullStatePersistence \<times> 'w" where
  "record_run_full self sid now t0 t1 body w =
     (case record_run_enter_full self sid now of
        Inl e \<Rightarrow> (Inl e, self, w)
      | Inr rec \<Rightarrow>
          (case body w of (r, w') \<Rightarrow> (r, record_run_exit_full rec t0 t1 r, w')))"

definition restore_full :: "'a FullStatePersistence \<Rightarrow> Snapshot option" where
  "restore_full self = (if history self \<noteq> [] then Some (last (history self)) else None)"

text \<open>
  \<^verbatim>\<open>set_types\<close>: \<^verbatim>\<open>build_snapshot_list_type_adapter\<close> is not among the sources and is a
  parameter; it and the callback \<^verbatim>\<open>get_types\<close> may raise. The callback acts on a state
  \<open>'w\<close> of its own, so that a call of it can be observed. The first component of the result
  is the exception that leaves \<^verbatim>\<open>set_types\<close>, if any.
\<close>

definition set_types ::
  "('t \<Rightarrow> 't \<Rightarrow> py_exception + 'a) \<Rightarrow> 'a FullStatePersistence
     \<Rightarrow> ('w \<Rightarrow> (py_exception + 't \<times> 't) \<times> 'w) \<Rightarrow> 'w
     \<Rightarrow> py_exception option \<times> 'a FullStatePersistence \<times> 'w" where
  "set_types build_snapshot_list_type_adapter self get_types w =
     (case snapshots_type_adapter self of
        None \<Rightarrow>
          (case get_types w of
             (Inl e, w') \<Rightarrow> (Some e, self, w')
           | (Inr (state_t, run_end_t), w') \<Rightarrow>
               (case build_snapshot_list_type_adapter state_t run_end_t of
                  Inl e \<Rightarrow> (Some e, self, w')
                | Inr adapter \<Rightarrow> (None, self\<lparr>snapshots_type_adapter := Some adapter\<rparr>, w')))
      | Some adapter \<Rightarrow> (None, self, w))"

subsection \<open>Mutation of the state after a capture\<close>

text \<open>
  A node's \<^verbatim>\<open>run\<close> changes the state in place (\<^verbatim>\<open>ctx.state.x += 1\<close>): the object at the
  state's reference gets a new value. \<open>captured_state\<close> reads the field \<^verbatim>\<open>state\<close> of a
  snapshot through the store. A run of the engine on a state at reference \<open>r\<close> is a sequence
  of captures by \<^verbatim>\<open>snapshot_node\<close> and \<^verbatim>\<open>snapshot_end\<close>, each with the identifier its
  snapshot gets, and of mutations of the state;
  \<open>states_seen\<close> lists the value the state had at each capture. The references a history
  holds are private when none of them is the engine's state.
\<close>

definition mutate_state :: "ref \<Rightarrow> 's \<Rightarrow> ('s, 'p, 'd) store \<Rightarrow> ('s, 'p, 'd) store" where
  "mutate_state r v st = st\<lparr>states := (states st)[r := v]\<rparr>"

fun state_ref :: "Snapshot \<Rightarrow> ref option" where
  "state_ref (NodeSnap x) = state x"
| "state_ref (EndSnap y) = end_state y"

definition captured_state :: "('s, 'p, 'd) store \<Rightarrow> Snapshot \<Rightarrow> 's option" where
  "captured_state st snap = map_option (\<lambda>r. states st ! r) (state_ref snap)"

datatype 's step = Capture_node ref string | Capture_end ref datetime string | Mutate 's

fun run_steps ::
  "ref \<Rightarrow> 's step list \<Rightarrow> 'a FullStatePersistence \<times> ('s, 'p, 'd) store
     \<Rightarrow> 'a FullStatePersistence \<times> ('s, 'p, 'd) store" where
  "run_steps r [] (self, st) = (self, st)"
| "run_steps r (Capture_node n sid # ops) (self, st) =
     run_steps r ops (snapshot_node_full self (Some r) n sid st)"
| "run_steps r (Capture_end e now sid # ops) (self, st) =
     run_steps r ops (snapshot_end_full self (Some r) e now sid st)"
| "run_steps r (Mutate v # ops) (self, st) = run_steps r ops (self, mutate_state r v st)"

fun states_seen :: "'s step list \<Rightarrow> 's \<Rightarrow> 's list" where
  "states_seen [] v = []"
| "states_seen (Capture_node n sid # ops) v = v # states_seen ops v"
| "states_seen (Capture_end e now sid # ops) v = v # states_seen ops v"
| "states_seen (Mutate v' # ops) v = states_seen ops v'"

definition private_refs :: "ref \<Rightarrow> ('s, 'p, 'd) store \<Rightarrow> Snapshot list \<Rightarrow> bool" where
  "private_refs r st h =
     (\<forall>snap \<in> set h. \<forall>a. state_ref snap = Some a \<longrightarrow> a < length (states st) \<and> a \<noteq> r)"

subsection \<open>The JSON document of a history\<close>

text \<open>
  Modelled from the spec: the type adapter made by
  \<^verbatim>\<open>build_snapshot_list_type_adapter\<close> (of \<^verbatim>\<open>pydantic_graph/persistence/__init__.py\<close>, not
  among the sources), which \<^verbatim>\<open>dump_json\<close> and \<^verbatim>\<open>load_json\<close> delegate to. The spec (6): a
  history document is a JSON array of objects in execution order; a node snapshot is
  \<^verbatim>\<open>{"kind": "node", "state", "node": {"node_id": ..., payload}, "start_ts", "duration",
  "status", "id"}\<close> with \<^verbatim>\<open>start_ts\<close>, \<^verbatim>\<open>duration\<close> and \<^verbatim>\<open>status\<close> optional (a missing status
  is created) and \<^verbatim>\<open>id\<close> assigned on load if absent; an end snapshot is
  \<^verbatim>\<open>{"kind": "end", "state", "result": {"data": ...}, "ts", "id"}\<close>; decoding dispatches on
  \<^verbatim>\<open>node_id\<close> and fails on an unknown one. The document is the JSON value, not its text.
  The encodings of the user's state type, node payloads and run-end type and of a timestamp
  (ISO 8601) are the fields of \<open>codec\<close>; an object is the list of its members, where the
  first member of a name counts.
\<close>

datatype json =
    JNull | JBool bool | JNumber real | JString string
  | JArray "json list" | JObject "(string \<times> json) list"

record ('s, 'p, 'd) codec =
  enc_state :: "'s option \<Rightarrow> json"
  dec_state :: "json \<Rightarrow> 's option option"
  enc_node :: "string \<Rightarrow> 'p \<Rightarrow> (string \<times> json) list"
  dec_node :: "string \<Rightarrow> (string \<times> json) list \<Rightarrow> 'p option"
  enc_data :: "'d \<Rightarrow> json"
  dec_data :: "json \<Rightarrow> 'd option"
  enc_ts :: "datetime \<Rightarrow> string"
  dec_ts :: "string \<Rightarrow> datetime option"

text \<open>
  The fields of a snapshot as values: what the dataclasses' equality compares, and what a
  document entry decodes to (\<open>None\<close> as identifier when the document gives none).
\<close>

datatype ('s, 'p, 'd) entry =
    NodeEntry "'s option" string 'p "datetime option" "real option" SnapshotStatus
      "string option"
  | EndEntry "'s option" 'd datetime "string option"

fun view :: "('s, 'p, 'd) store \<Rightarrow> Snapshot \<Rightarrow> ('s, 'p, 'd) entry" where
  "view st (NodeSnap x) =
     NodeEntry (map_option (\<lambda>r. states st ! r) (state x)) (fst (nodes st ! node x))
       (snd (nodes st ! node x)) (start_ts x) (duration x) (status x) (Some (snapshot_id x))"
| "view st (EndSnap y) =
     EndEntry (map_option (\<lambda>r. states st ! r) (end_state y)) (ends st ! result y) (ts y)
       (Some (end_snapshot_id y))"


fun entry_id :: "('s, 'p, 'd) entry \<Rightarrow> string option" where
  "entry_id (NodeEntry s nid p t d v i) = i"
| "entry_id (EndEntry s r t i) = i"

fun status_str :: "SnapshotStatus \<Rightarrow> string" where
  "status_str created = ''created''"
| "status_str pending = ''pending''"
| "status_str running = ''running''"
| "status_str success = ''success''"
| "status_str error = ''error''"

definition parse_status :: "string \<Rightarrow> SnapshotStatus option" where
  "parse_status s =
     (if s = ''created'' then Some created else if s = ''pending'' then Some pending
      else if s = ''running'' then Some running else if s = ''success'' then Some success
      else if s = ''error'' then Some error else None)"

fun enc_entry :: "('s, 'p, 'd) codec \<Rightarrow> ('s, 'p, 'd) entry \<Rightarrow> json" where
  "enc_entry c (NodeEntry s nid p t d v i) =
     JObject
       [(''state'', enc_state c s),
        (''node'', JObject ((''node_id'', JString nid) # enc_node c nid p)),
        (''start_ts'', case t of None \<Rightarrow> JNull | Some x \<Rightarrow> JString (enc_ts c x)),
        (''duration'', case d of None \<Rightarrow> JNull | Some x \<Rightarrow> JNumber x),
        (''status'', JString (status_str v)),
        (''kind'', JString ''node''),
        (''id'', case i of None \<Rightarrow> JNull | Some x \<Rightarrow> JString x)]"
| "enc_entry c (EndEntry s r t i) =
     JObject
       [(''state'', enc_state c s),
        (''result'', JObject [(''data'', enc_data c r)]),
        (''ts'', JString (enc_ts c t)),
        (''kind'', JString ''end''),
        (''id'', case i of None \<Rightarrow> JNull | Some x \<Rightarrow> JString x)]"

text \<open>A member of an object; a missing member reads as null.\<close>

definition member :: "(string \<times> json) list \<Rightarrow> string \<Rightarrow> json" where
  "member fs k = (case map_of fs k of None \<Rightarrow> JNull | Some v \<Rightarrow> v)"

fun dec_opt_ts :: "('s, 'p, 'd) codec \<Rightarrow> json \<Rightarrow> datetime option option" where
  "dec_opt_ts c JNull = Some None"
| "dec_opt_ts c (JString s) = map_option Some (dec_ts c s)"
| "dec_opt_ts c j = None"

fun dec_opt_number :: "json \<Rightarrow> real option option" where
  "dec_opt_number JNull = Some None"
| "dec_opt_number (JNumber d) = Some (Some d)"
| "dec_opt_number j = None"

fun dec_status :: "json \<Rightarrow> SnapshotStatus option" where
  "dec_status JNull = Some created"
| "dec_status (JString s) = parse_status s"
| "dec_status j = None"

fun dec_opt_id :: "json \<Rightarrow> string option option" where
  "dec_opt_id JNull = Some None"
| "dec_opt_id (JString s) = Some (Some s)"
| "dec_opt_id j = None"

fun dec_node_object :: "('s, 'p, 'd) codec \<Rightarrow> json \<Rightarrow> (string \<times> 'p) option" where
  "dec_node_object c (JObject fs) =
     (case map_of fs ''node_id'' of
        Some (JString nid) \<Rightarrow>
          map_option (Pair nid) (dec_node c nid (filter (\<lambda>kv. fst kv \<noteq> ''node_id'') fs))
      | _ \<Rightarrow> None)"
| "dec_node_object c j = None"

fun dec_result :: "('s, 'p, 'd) codec \<Rightarrow> json \<Rightarrow> 'd option" where
  "dec_result c (JObject fs) =
     (case map_of fs ''data'' of Some j \<Rightarrow> dec_data c j | None \<Rightarrow> None)"
| "dec_result c j = None"

fun dec_required_ts :: "('s, 'p, 'd) codec \<Rightarrow> json \<Rightarrow> datetime option" where
  "dec_required_ts c (JString s) = dec_ts c s"
| "dec_required_ts c j = None"

definition dec_node_entry ::
  "('s, 'p, 'd) codec \<Rightarrow> (string \<times> json) list \<Rightarrow> ('s, 'p, 'd) entry option" where
  "dec_node_entry c fs =
     Option.bind (dec_state c (member fs ''state'')) (\<lambda>s.
     Option.bind (dec_node_object c (member fs ''node'')) (\<lambda>n.
     Option.bind (dec_opt_ts c (member fs ''start_ts'')) (\<lambda>t.
     Option.bind (dec_opt_number (member fs ''duration'')) (\<lambda>d.
     Option.bind (dec_status (member fs ''status'')) (\<lambda>v.
     Option.bind (dec_opt_id (member fs ''id'')) (\<lambda>i.
       Some (NodeEntry s (fst n) (snd n) t d v i)))))))"

definition dec_end_entry ::
  "('s, 'p, 'd) codec \<Rightarrow> (string \<times> json) list \<Rightarrow> ('s, 'p, 'd) entry option" where
  "dec_end_entry c fs =
     Option.bind (dec_state c (member fs ''state'')) (\<lambda>s.
     Option.bind (dec_result c (member fs ''result'')) (\<lambda>r.
     Option.bind (dec_required_ts c (member fs ''ts'')) (\<lambda>t.
     Option.bind (dec_opt_id (member fs ''id'')) (\<lambda>i.
       Some (EndEntry s r t i)))))"

fun dec_entry :: "('s, 'p, 'd) codec \<Rightarrow> json \<Rightarrow> ('s, 'p, 'd) entry option" where
  "dec_entry c (JObject fs) =
     (if member fs ''kind'' = JString ''node'' then dec_node_entry c fs
      else if member fs ''kind'' = JString ''end'' then dec_end_entry c fs
      else None)"
| "dec_entry c j = None"

text \<open>A decoded entry becomes a snapshot with objects of its own.\<close>

definition new_state :: "'s option \<Rightarrow> ('s, 'p, 'd) store \<Rightarrow> ref option \<times> ('s, 'p, 'd) store" where
  "new_state s st =
     (case s of None \<Rightarrow> (None, st)
      | Some v \<Rightarrow> (Some (length (states st)), st\<lparr>states := states st @ [v]\<rparr>))"

text \<open>
  Modelled from the spec: the identifiers given on load. The identifier of the document is
  kept (\<^verbatim>\<open>sp2.history\<close> of \<^verbatim>\<open>test_dump_load_state\<close> equals \<^verbatim>\<open>sp.history\<close>), a missing one
  is the next of the allocator. The spec (4.F): when loading JSON, assigned identifiers
  begin after the maximum previously allocated identifier to avoid collisions with future
  appends; so the identifiers of the document count as allocated: before any identifier is
  assigned, the count of the allocator is raised to the largest number among the
  identifiers of the document (\<open>doc_max\<close>), so that \<open>id_on_load\<close> is given a count that
  none of them exceeds. The count \<open>a\<close> of the allocator is, like the store, state of the
  program outside the persistence, which \<^verbatim>\<open>load_json\<close> neither reads nor holds.
\<close>

definition doc_max :: "('s, 'p, 'd) entry list \<Rightarrow> nat \<Rightarrow> nat" where
  "doc_max es a =
     foldl (\<lambda>m e. case entry_id e of None \<Rightarrow> m | Some sid \<Rightarrow> max m (id_seq sid)) a es"

definition id_on_load :: "string \<Rightarrow> string option \<Rightarrow> nat \<Rightarrow> string \<times> nat" where
  "id_on_load prefix i a = (case i of Some sid \<Rightarrow> (sid, a) | None \<Rightarrow> allocate prefix a)"

fun load_entry ::
  "('s, 'p, 'd) entry \<Rightarrow> Snapshot list \<times> nat \<times> ('s, 'p, 'd) store
     \<Rightarrow> Snapshot list \<times> nat \<times> ('s, 'p, 'd) store" where
  "load_entry (NodeEntry s nid p t d v i) (h, n, st) =
     (case new_state s st of (sref, st1) \<Rightarrow>
      case id_on_load nid i n of (sid, n') \<Rightarrow>
        (h @ [NodeSnap \<lparr>state = sref, node = length (nodes st1), start_ts = t, duration = d,
                status = v, snapshot_id = sid\<rparr>],
         n', st1\<lparr>nodes := nodes st1 @ [(nid, p)]\<rparr>))"
| "load_entry (EndEntry s r t i) (h, n, st) =
     (case new_state s st of (sref, st1) \<Rightarrow>
      case id_on_load ''end'' i n of (sid, n') \<Rightarrow>
        (h @ [EndSnap \<lparr>end_state = sref, result = length (ends st1), ts = t,
                end_snapshot_id = sid\<rparr>],
         n', st1\<lparr>ends := ends st1 @ [r]\<rparr>))"

fun load_entries ::
  "('s, 'p, 'd) entry list \<Rightarrow> Snapshot list \<times> nat \<times> ('s, 'p, 'd) store
     \<Rightarrow> Snapshot list \<times> nat \<times> ('s, 'p, 'd) store" where
  "load_entries [] acc = acc"
| "load_entries (e # es) acc = load_entries es (load_entry e acc)"

record ('s, 'p, 'd) TypeAdapter =
  adapter_dump_json :: "Snapshot list \<Rightarrow> nat option \<Rightarrow> ('s, 'p, 'd) store \<Rightarrow> json"
  adapter_validate_json ::
    "json \<Rightarrow> nat \<Rightarrow> ('s, 'p, 'd) store
       \<Rightarrow> py_exception + Snapshot list \<times> nat \<times> ('s, 'p, 'd) store"

definition snapshot_list_adapter :: "('s, 'p, 'd) codec \<Rightarrow> ('s, 'p, 'd) TypeAdapter" where
  "snapshot_list_adapter c =
     \<lparr>adapter_dump_json = (\<lambda>h indent st. JArray (map (\<lambda>snap. enc_entry c (view st snap)) h)),
      adapter_validate_json = (\<lambda>doc n st.
        case doc of
          JArray js \<Rightarrow>
            (case those (map (dec_entry c) js) of
               None \<Rightarrow> Inl (PyExc ValueError ''validation error'')
             | Some es \<Rightarrow> Inr (load_entries es ([], doc_max es n, st)))
        | _ \<Rightarrow> Inl (PyExc ValueError ''validation error''))\<rparr>"

text \<open>
  \<^verbatim>\<open>dump_json\<close> and \<^verbatim>\<open>load_json\<close> of \<^verbatim>\<open>FullStatePersistence\<close>: both assert that the type
  adapter is set and delegate to it; \<^verbatim>\<open>load_json\<close> assigns the result to \<^verbatim>\<open>history\<close>. The
  adapter decodes in the state of the program (the allocator's count \<open>a\<close> and the store),
  which \<^verbatim>\<open>load_json\<close> passes through.
\<close>

definition dump_json ::
  "('s, 'p, 'd) TypeAdapter FullStatePersistence \<Rightarrow> nat option \<Rightarrow> ('s, 'p, 'd) store
     \<Rightarrow> py_exception + json" where
  "dump_json self indent st =
     (case snapshots_type_adapter self of
        None \<Rightarrow> Inl (PyExc AssertionError ''type adapter must be set to use `dump_json`'')
      | Some adapter \<Rightarrow> Inr (adapter_dump_json adapter (history self) indent st))"

definition load_json ::
  "('s, 'p, 'd) TypeAdapter FullStatePersistence \<Rightarrow> json \<Rightarrow> nat \<Rightarrow> ('s, 'p, 'd) store
     \<Rightarrow> py_exception option \<times> ('s, 'p, 'd) TypeAdapter FullStatePersistence \<times> nat
        \<times> ('s, 'p, 'd) store" where
  "load_json self json_data a st =
     (case snapshots_type_adapter self of
        None \<Rightarrow>
          (Some (PyExc AssertionError ''type adapter must be set to use `load_json`''), self,
           a, st)
      | Some adapter \<Rightarrow>
          (case adapter_validate_json adapter json_data a st of
             Inl e \<Rightarrow> (Some e, self, a, st)
           | Inr (h, a', st') \<Rightarrow> (None, self\<lparr>history := h\<rparr>, a', st')))"

subsection \<open>The document of the test suite\<close>

text \<open>
  \<^verbatim>\<open>custom_history\<close> of \<^verbatim>\<open>test_dump_load_state\<close> (two snapshots without \<^verbatim>\<open>id\<close>), with
  a codec for the test's \<^verbatim>\<open>MyState(x: int, y: str)\<close>, its nodes \<^verbatim>\<open>Foo\<close> and \<^verbatim>\<open>Bar\<close>
  (no payload) and run-end type \<^verbatim>\<open>int\<close>, which knows the one timestamp of the document
  and reads an \<^verbatim>\<open>int\<close> from a number or from a string of digits (the test gives
  \<^verbatim>\<open>'data': '42'\<close> and expects \<^verbatim>\<open>End(data=42)\<close>).
\<close>

definition test_codec :: "(int \<times> string, unit, int) codec" where
  "test_codec =
     \<lparr>enc_state = (\<lambda>s. case s of None \<Rightarrow> JNull
          | Some (x, y) \<Rightarrow> JObject [(''x'', JNumber (of_int x)), (''y'', JString y)]),
      dec_state = (\<lambda>j. case j of JNull \<Rightarrow> Some None
          | JObject fs \<Rightarrow>
              (case (member fs ''x'', member fs ''y'') of
                 (JNumber x, JString y) \<Rightarrow> Some (Some (\<lfloor>x\<rfloor>, y)) | _ \<Rightarrow> None)
          | _ \<Rightarrow> None),
      enc_node = (\<lambda>nid p. []),
      dec_node = (\<lambda>nid fs. if nid = ''Foo'' \<or> nid = ''Bar'' then Some () else None),
      enc_data = (\<lambda>d. JNumber (of_int d)),
      dec_data = (\<lambda>j. case j of JNumber x \<Rightarrow> Some \<lfloor>x\<rfloor>
          | JString s \<Rightarrow>
              if s \<noteq> [] \<and> list_all (\<lambda>c. c \<in> set ''0123456789'') s
              then Some (int (nat_of_str s)) else None
          | _ \<Rightarrow> None),
      enc_ts = (\<lambda>t. if t = 1735689600000000 then ''2025-01-01T00:00:00Z'' else ''?''),
      dec_ts = (\<lambda>s. if s = ''2025-01-01T00:00:00Z'' then Some 1735689600000000 else None)\<rparr>"


subsection \<open>Missing node references\<close>

text \<open>
  Modelled from the spec: the check of the graph's edges at construction
  (\<^verbatim>\<open>pydantic_graph/graph.py\<close>, not among the sources), from spec 4.D and the messages
  that \<^verbatim>\<open>tests/graph/test_graph.py\<close> expects. A graph is the list of its declared nodes
  in order, each with its node id and the ids of the nodes its \<^verbatim>\<open>run\<close> can return. A
  reference to an undeclared node is missing; the report keeps the missing nodes in the
  order met, each with its referrers in order. One missing node gives
  \<^verbatim>\<open>`X` is referenced by `Y` but not included in the graph.\<close>, several referrers are
  listed with commas and a final \<^verbatim>\<open>and\<close>; several missing nodes give a header line and
  one line for each.
\<close>

definition backquote :: "string \<Rightarrow> string" where
  "backquote s = ''`'' @ s @ ''`''"

fun join :: "string \<Rightarrow> string list \<Rightarrow> string" where
  "join sep [] = []"
| "join sep [x] = x"
| "join sep (x # y # ys) = x @ sep @ join sep (y # ys)"

definition comma_and :: "string list \<Rightarrow> string" where
  "comma_and items =
     (if length items = 1 then hd items
      else join '', '' (butlast items) @ '', and '' @ last items)"

fun add_bad_edge ::
  "string \<Rightarrow> string \<Rightarrow> (string \<times> string list) list \<Rightarrow> (string \<times> string list) list" where
  "add_bad_edge edge referrer [] = [(edge, [referrer])]"
| "add_bad_edge edge referrer ((k, rs) # bad) =
     (if k = edge then (k, rs @ [referrer]) # bad
      else (k, rs) # add_bad_edge edge referrer bad)"

definition bad_edges :: "(string \<times> string list) list \<Rightarrow> (string \<times> string list) list" where
  "bad_edges node_defs =
     foldl (\<lambda>bad (node_id, edges).
        foldl (\<lambda>bad edge.
           if edge \<in> set (map fst node_defs) then bad else add_bad_edge edge node_id bad)
          bad edges)
       [] node_defs"

definition bad_edge_line :: "string \<times> string list \<Rightarrow> string" where
  "bad_edge_line b =
     backquote (fst b) @ '' is referenced by '' @ comma_and (map backquote (snd b))"

definition validate_edges :: "(string \<times> string list) list \<Rightarrow> py_exception + unit" where
  "validate_edges node_defs =
     (case map bad_edge_line (bad_edges node_defs) of
        [] \<Rightarrow> Inr ()
      | [line] \<Rightarrow> Inl (PyExc GraphSetupError (line @ '' but not included in the graph.''))
      | lines \<Rightarrow> Inl (PyExc GraphSetupError
          (''Nodes are referenced in the graph but not included in the graph:''
             @ concat (map (\<lambda>line. [CHR 0x0A] @ '' '' @ line) lines))))"

definition referrers :: "(string \<times> string list) list \<Rightarrow> string \<Rightarrow> string list" where
  "referrers node_defs x =
     concat (map (\<lambda>(node_id, edges). map (\<lambda>e. node_id) (filter (\<lambda>e. e = x) edges)) node_defs)"

definition add_referrers :: "string list option \<Rightarrow> string list \<Rightarrow> string list option" where
  "add_referrers old new =
     (if new = [] then old else Some ((case old of None \<Rightarrow> [] | Some rs \<Rightarrow> rs) @ new))"

subsection \<open>The run loop\<close>

text \<open>
  Modelled from the spec: \<^verbatim>\<open>Graph.run\<close> (\<^verbatim>\<open>pydantic_graph/graph.py\<close>, not among the
  sources), from the algorithm of spec 4.E: snapshot the cursor, run it inside
  \<^verbatim>\<open>record_run\<close> of the snapshot just made, then record the end, move to the next node, or
  fail on a node that is not declared or a value that is neither node nor end. A node's
  \<^verbatim>\<open>run\<close> is any function that, given the node and the state, changes the store and
  returns a step or raises. The \<open>k\<close>-th recording region reads \<open>now_utc k\<close>, \<open>perf_start k\<close>
  and \<open>perf_stop k\<close>. The loop has fuel: \<open>None\<close> when it has not stopped within it. The result
  says where an exception comes from: \<open>NodeError\<close> from the node's \<^verbatim>\<open>run\<close>, \<open>GraphError\<close> from
  the engine. The messages of the engine name the node by its id. The snapshots the engine
  makes get their identifiers from the allocator, whose count \<open>a\<close> the run takes and
  returns.
\<close>

datatype next_step = NextNode ref | EndStep ref | InvalidStep string

record ('s, 'p, 'd) graph =
  declared :: "string list"
  node_run ::
    "ref \<Rightarrow> ref option \<Rightarrow> ('s, 'p, 'd) store \<Rightarrow> (py_exception + next_step) \<times> ('s, 'p, 'd) store"

record clock =
  now_utc :: "nat \<Rightarrow> datetime"
  perf_start :: "nat \<Rightarrow> real"
  perf_stop :: "nat \<Rightarrow> real"

datatype run_result = RunResult ref | NodeError py_exception | GraphError py_exception

fun graph_run ::
  "nat \<Rightarrow> ('s, 'p, 'd) graph \<Rightarrow> clock \<Rightarrow> nat \<Rightarrow> nat \<Rightarrow> 'a FullStatePersistence
     \<Rightarrow> ref option \<Rightarrow> ref \<Rightarrow> ('s, 'p, 'd) store
     \<Rightarrow> (run_result \<times> 'a FullStatePersistence \<times> nat \<times> ('s, 'p, 'd) store) option" where
  "graph_run 0 g c k a self s cursor st = None"
| "graph_run (Suc fuel) g c k a self s cursor st =
     (case allocate (fst (nodes st ! cursor)) a of (sid, a1) \<Rightarrow>
      case snapshot_node_full self s cursor sid st of (self1, st1) \<Rightarrow>
      case record_run_full self1 sid
             (now_utc c k) (perf_start c k) (perf_stop c k) (node_run g cursor s) st1 of
        (Inl e, self2, st2) \<Rightarrow> Some (NodeError e, self2, a1, st2)
      | (Inr (EndStep r), self2, st2) \<Rightarrow>
          (case allocate ''end'' a1 of (eid, a2) \<Rightarrow>
           case snapshot_end_full self2 s r (now_utc c (k + 1)) eid st2 of
             (self3, st3) \<Rightarrow> Some (RunResult r, self3, a2, st3))
      | (Inr (NextNode n), self2, st2) \<Rightarrow>
          if fst (nodes st2 ! n) \<in> set (declared g)
          then graph_run fuel g c (k + 1) a1 self2 s n st2
          else Some (GraphError (PyExc GraphRuntimeError
                 (''Node `'' @ fst (nodes st2 ! n) @ ''` is not in the graph.'')), self2, a1,
                 st2)
      | (Inr (InvalidStep ty), self2, st2) \<Rightarrow>
          Some (GraphError (PyExc GraphRuntimeError
            (''Invalid node return type: `'' @ ty @ ''`. Expected `BaseNode` or `End`.'')),
            self2, a1, st2))"

text \<open>
  The status of a node snapshot (\<open>None\<close> for an end snapshot), and whether a snapshot that
  has finished carries a duration that is not negative.
\<close>

fun node_status :: "Snapshot \<Rightarrow> SnapshotStatus option" where
  "node_status (NodeSnap x) = Some (status x)"
| "node_status (EndSnap y) = None"



text \<open>
  The graph and the clock of \<^verbatim>\<open>test_node_error\<close>: \<^verbatim>\<open>Foo\<close> returns \<^verbatim>\<open>Spam()\<close>, and
  \<^verbatim>\<open>Spam\<close> raises the exception \<open>e\<close> (\<^verbatim>\<open>RuntimeError('test error')\<close> in the test).
\<close>

definition test_error_graph :: "py_exception \<Rightarrow> ('s, unit, 'd) graph" where
  "test_error_graph e =
     \<lparr>declared = [''Foo'', ''Spam''],
      node_run = (\<lambda>cursor s st.
        if fst (nodes st ! cursor) = ''Foo''
        then (Inr (NextNode (length (nodes st))), st\<lparr>nodes := nodes st @ [(''Spam'', ())]\<rparr>)
        else (Inl e, st))\<rparr>"

definition test_clock :: clock where
  "test_clock =
     \<lparr>now_utc = (\<lambda>k. 1700000000 + int k), perf_start = (\<lambda>k. real k),
      perf_stop = (\<lambda>k. real k + 1 / 2)\<rparr>"



subsection \<open>Round trips of a codec\<close>

text \<open>
  \<open>codec_ok\<close>: the encodings of the user's types and of the timestamps decode to what was
  encoded, for the values of one entry, and the payload of a node has no member named
  \<^verbatim>\<open>node_id\<close> (the reserved name). \<open>valid_refs\<close>: the references of a snapshot are objects of
  the store. \<open>test_persistence\<close> and \<open>test_store\<close> are the history of \<^verbatim>\<open>test_dump_load_state\<close>
  after the run (\<^verbatim>\<open>Foo:1\<close>, \<^verbatim>\<open>Bar:2\<close>, \<^verbatim>\<open>end:3\<close>), with the timestamp the test codec knows.
\<close>

fun codec_ok :: "('s, 'p, 'd) codec \<Rightarrow> ('s, 'p, 'd) entry \<Rightarrow> bool" where
  "codec_ok c (NodeEntry s nid p t d v i) =
     (dec_state c (enc_state c s) = Some s
      \<and> dec_node c nid (enc_node c nid p) = Some p
      \<and> ''node_id'' \<notin> set (map fst (enc_node c nid p))
      \<and> (case t of None \<Rightarrow> True | Some x \<Rightarrow> dec_ts c (enc_ts c x) = Some x))"
| "codec_ok c (EndEntry s r t i) =
     (dec_state c (enc_state c s) = Some s
      \<and> dec_data c (enc_data c r) = Some r
      \<and> dec_ts c (enc_ts c t) = Some t)"

fun valid_refs :: "('s, 'p, 'd) store \<Rightarrow> Snapshot \<Rightarrow> bool" where
  "valid_refs st (NodeSnap x) =
     ((case state x of None \<Rightarrow> True | Some r \<Rightarrow> r < length (states st))
      \<and> node x < length (nodes st))"
| "valid_refs st (EndSnap y) =
     ((case end_state y of None \<Rightarrow> True | Some r \<Rightarrow> r < length (states st))
      \<and> result y < length (ends st))"

definition test_store :: "(int \<times> string, unit, int) store" where
  "test_store =
     \<lparr>states = [(1, ''''), (2, ''''), (2, ''y'')], nodes = [(''Foo'', ()), (''Bar'', ())],
      ends = [4]\<rparr>"

definition test_persistence :: "(int \<times> string, unit, int) TypeAdapter FullStatePersistence" where
  "test_persistence =
     \<lparr>deep_copy = True,
      history =
        [NodeSnap \<lparr>state = Some 0, node = 0, start_ts = Some 1735689600000000,
           duration = Some (1 / 2), status = success, snapshot_id = ''Foo:1''\<rparr>,
         NodeSnap \<lparr>state = Some 1, node = 1, start_ts = Some 1735689600000000,
           duration = Some (1 / 4), status = success, snapshot_id = ''Bar:2''\<rparr>,
         EndSnap \<lparr>end_state = Some 2, result = 0, ts = 1735689600000000,
           end_snapshot_id = ''end:3''\<rparr>],
      snapshots_type_adapter = Some (snapshot_list_adapter test_codec)\<rparr>"

section \<open>Properties\<close>

subsection \<open>Finding a snapshot, entering and leaving the region\<close>

lemma find_snapshot_None: "find_snapshot h sid = None \<longleftrightarrow> sid \<notin> id_of ` set h"
  by (induction h) auto

lemma find_snapshot_Some:
  "find_snapshot h sid = Some i \<Longrightarrow>
     i < length h \<and> id_of (h ! i) = sid \<and> (\<forall>j<i. id_of (h ! j) \<noteq> sid)"
proof (induction h arbitrary: i)
  case Nil
  then show ?case by simp
next
  case (Cons x xs)
  show ?case
  proof (cases "id_of x = sid")
    case True
    with Cons.prems show ?thesis by simp
  next
    case False
    with Cons.prems obtain k where k: "find_snapshot xs sid = Some k" "i = Suc k"
      by auto
    from Cons.IH [OF k(1)] False k(2) show ?thesis
      by (auto simp: less_Suc_eq_0_disj)
  qed
qed

lemma enter_full_found:
  assumes "find_snapshot (history self) sid = Some i" "history self ! i = NodeSnap s"
  shows "record_run_enter_full self sid now =
     Inr (Recording (self\<lparr>history := (history self)
        [i := NodeSnap (s\<lparr>status := running, start_ts := Some now\<rparr>)]\<rparr>) i)"
  using assms by (simp add: record_run_enter_full_def)

lemma record_run_full_found:
  assumes f: "find_snapshot (history self) sid = Some i" "history self ! i = NodeSnap s"
      and b: "body w = (r, w')"
  shows "record_run_full self sid now t0 t1 body w =
     (r, (case r of
            Inl e \<Rightarrow> if isinstance_Exception e
              then self\<lparr>history := (history self)[i := NodeSnap (s\<lparr>start_ts := Some now,
                       duration := Some (t1 - t0), status := error\<rparr>)]\<rparr>
              else self\<lparr>history := (history self)[i := NodeSnap (s\<lparr>status := running,
                       start_ts := Some now\<rparr>)]\<rparr>
          | Inr v \<Rightarrow> self\<lparr>history := (history self)[i := NodeSnap (s\<lparr>start_ts := Some now,
                       duration := Some (t1 - t0), status := success\<rparr>)]\<rparr>), w')"
proof -
  have i: "i < length (history self)"
    using find_snapshot_Some [OF f(1)] by simp
  show ?thesis
    using i b by (simp add: record_run_full_def enter_full_found [OF f]
        record_run_exit_full_def split: sum.splits)
qed

lemma enter_simple_found:
  assumes "last_snapshot self = Some (NodeSnap s)" "snapshot_id s = sid"
  shows "record_run_enter_simple self sid now =
     Inr (self\<lparr>last_snapshot := Some (NodeSnap (s\<lparr>status := running, start_ts := Some now\<rparr>))\<rparr>)"
  using assms by (simp add: record_run_enter_simple_def)

lemma record_run_simple_found:
  assumes f: "last_snapshot self = Some (NodeSnap s)" "snapshot_id s = sid"
      and b: "body w = (r, w')"
  shows "record_run_simple self sid now t0 t1 body w =
     (r, (case r of
            Inl e \<Rightarrow> if isinstance_Exception e
              then self\<lparr>last_snapshot := Some (NodeSnap (s\<lparr>start_ts := Some now,
                       duration := Some (t1 - t0), status := error\<rparr>))\<rparr>
              else self\<lparr>last_snapshot := Some (NodeSnap (s\<lparr>status := running,
                       start_ts := Some now\<rparr>))\<rparr>
          | Inr v \<Rightarrow> self\<lparr>last_snapshot := Some (NodeSnap (s\<lparr>start_ts := Some now,
                       duration := Some (t1 - t0), status := success\<rparr>))\<rparr>), w')"
  using b by (simp add: record_run_simple_def enter_simple_found [OF f]
      record_run_exit_simple_def split: sum.splits)

subsection \<open>The recording region\<close>

text \<open>
  Claim C1, as amended. For both backends, entering \<^verbatim>\<open>record_run\<close> on a node snapshot sets
  its status to running and its \<^verbatim>\<open>start_ts\<close> to \<^verbatim>\<open>now_utc()\<close> before the body runs. When
  the body returns, the duration is set to the elapsed time and the status to success; when
  the body raises an instance of \<^verbatim>\<open>Exception\<close>, the duration is set, the status becomes
  error and the same exception leaves the region. (An exception that is not an instance of
  \<^verbatim>\<open>Exception\<close> is not covered: see C8.)
\<close>

theorem record_run_updates_on_return_or_Exception:
  fixes full :: "'a FullStatePersistence" and simple :: SimpleStatePersistence
    and body :: "'w \<Rightarrow> (py_exception + 'b) \<times> 'w"
  assumes "find_snapshot (history full) sid = Some i" and "history full ! i = NodeSnap s"
    and "last_snapshot simple = Some (NodeSnap s')" and "snapshot_id s' = sid'"
    and "body w = (r, w')"
    and "case r of Inl e \<Rightarrow> isinstance_Exception e | Inr v \<Rightarrow> True"
  shows "record_run_enter_full full sid now =
           Inr (Recording (full\<lparr>history := (history full)
             [i := NodeSnap (s\<lparr>status := running, start_ts := Some now\<rparr>)]\<rparr>) i)
       \<and> record_run_full full sid now t0 t1 body w =
           (r, full\<lparr>history := (history full)
             [i := NodeSnap (s\<lparr>start_ts := Some now, duration := Some (t1 - t0),
                   status := (case r of Inl e \<Rightarrow> error | Inr v \<Rightarrow> success)\<rparr>)]\<rparr>, w')
       \<and> record_run_enter_simple simple sid' now =
           Inr (simple\<lparr>last_snapshot :=
             Some (NodeSnap (s'\<lparr>status := running, start_ts := Some now\<rparr>))\<rparr>)
       \<and> record_run_simple simple sid' now t0 t1 body w =
           (r, simple\<lparr>last_snapshot :=
             Some (NodeSnap (s'\<lparr>start_ts := Some now, duration := Some (t1 - t0),
                   status := (case r of Inl e \<Rightarrow> error | Inr v \<Rightarrow> success)\<rparr>))\<rparr>, w')"
proof -
  have a: "record_run_enter_full full sid now =
           Inr (Recording (full\<lparr>history := (history full)
             [i := NodeSnap (s\<lparr>status := running, start_ts := Some now\<rparr>)]\<rparr>) i)"
    using assms(1,2) by (rule enter_full_found)
  have b: "record_run_full full sid now t0 t1 body w =
           (r, full\<lparr>history := (history full)
             [i := NodeSnap (s\<lparr>start_ts := Some now, duration := Some (t1 - t0),
                   status := (case r of Inl e \<Rightarrow> error | Inr v \<Rightarrow> success)\<rparr>)]\<rparr>, w')"
    using assms(1,2,5,6) record_run_full_found [of full sid i s body w r w' now t0 t1]
    by (simp split: sum.splits)
  have c: "record_run_enter_simple simple sid' now =
           Inr (simple\<lparr>last_snapshot :=
             Some (NodeSnap (s'\<lparr>status := running, start_ts := Some now\<rparr>))\<rparr>)"
    using assms(3,4) by (rule enter_simple_found)
  have d: "record_run_simple simple sid' now t0 t1 body w =
           (r, simple\<lparr>last_snapshot :=
             Some (NodeSnap (s'\<lparr>start_ts := Some now, duration := Some (t1 - t0),
                   status := (case r of Inl e \<Rightarrow> error | Inr v \<Rightarrow> success)\<rparr>))\<rparr>, w')"
    using assms(3,4,5,6) record_run_simple_found [of simple s' sid' body w r w' now t0 t1]
    by (simp split: sum.splits)
  from a b c d show ?thesis by blast
qed

theorem record_run_updates_witness:
  "record_run_full
      ((FullStatePersistence_new :: unit FullStatePersistence)
         \<lparr>history := [NodeSnap (new_NodeSnapshot None 0 ''Foo:1''),
                      NodeSnap (new_NodeSnapshot None 1 ''Spam:2'')]\<rparr>)
      ''Spam:2'' 1700000000 5 7 (\<lambda>w::unit. (Inl (PyExc RuntimeError ''test error'') :: py_exception + unit, w)) ()
    = (Inl (PyExc RuntimeError ''test error''),
       FullStatePersistence_new
         \<lparr>history := [NodeSnap (new_NodeSnapshot None 0 ''Foo:1''),
                      NodeSnap \<lparr>state = None, node = 1, start_ts = Some 1700000000,
                        duration = Some 2, status = error, snapshot_id = ''Spam:2''\<rparr>]\<rparr>, ())
   \<and> record_run_simple
      (SimpleStatePersistence_new\<lparr>last_snapshot := Some (NodeSnap (new_NodeSnapshot None 0 ''Foo:1''))\<rparr>)
      ''Foo:1'' 1700000000 5 7 (\<lambda>w::unit. (Inl (PyExc RuntimeError ''test error'') :: py_exception + unit, w)) ()
    = (Inl (PyExc RuntimeError ''test error''),
       SimpleStatePersistence_new\<lparr>last_snapshot := Some (NodeSnap
          \<lparr>state = None, node = 0, start_ts = Some 1700000000,
                        duration = Some 2, status = error, snapshot_id = ''Foo:1''\<rparr>)\<rparr>, ())"
  using record_run_updates_on_return_or_Exception
    [of "(FullStatePersistence_new :: unit FullStatePersistence)
         \<lparr>history := [NodeSnap (new_NodeSnapshot None 0 ''Foo:1''),
                      NodeSnap (new_NodeSnapshot None 1 ''Spam:2'')]\<rparr>"
        "''Spam:2''" 1 "new_NodeSnapshot None 1 ''Spam:2''"
        "SimpleStatePersistence_new\<lparr>last_snapshot := Some (NodeSnap (new_NodeSnapshot None 0 ''Foo:1''))\<rparr>"
        "new_NodeSnapshot None 0 ''Foo:1''" "''Foo:1''"
        "\<lambda>w::unit. (Inl (PyExc RuntimeError ''test error'') :: py_exception + unit, w)" "()"
        "Inl (PyExc RuntimeError ''test error'')" "()" 1700000000 5 7]
  by (simp add: FullStatePersistence_new_def SimpleStatePersistence_new_def new_NodeSnapshot_def)

theorem record_run_every_exit_counterexample:
  "snd (record_run_full
      ((FullStatePersistence_new :: unit FullStatePersistence)
         \<lparr>history := [NodeSnap (new_NodeSnapshot None 0 ''Foo:1'')]\<rparr>)
      ''Foo:1'' 1700000000 5 7 (\<lambda>w::unit. (Inl (PyExc KeyboardInterrupt '''') :: py_exception + unit, w)) ())
    = (FullStatePersistence_new
         \<lparr>history := [NodeSnap \<lparr>state = None, node = 0, start_ts = Some 1700000000,
                        duration = None, status = running, snapshot_id = ''Foo:1''\<rparr>]\<rparr>, ())"
  by (simp add: record_run_full_def record_run_enter_full_def record_run_exit_full_def
      FullStatePersistence_new_def new_NodeSnapshot_def)

text \<open>
  Claim C2, as amended. \<^verbatim>\<open>FullStatePersistence.record_run\<close> fails with \<^verbatim>\<open>LookupError\<close>
  when no snapshot of the history has the identifier, and with \<^verbatim>\<open>AssertionError\<close> when the
  first snapshot with the identifier is an end snapshot;
  \<^verbatim>\<open>SimpleStatePersistence.record_run\<close> fails with \<^verbatim>\<open>AssertionError\<close> when there is no
  snapshot, when the last snapshot is an end snapshot, and when the last snapshot has another
  identifier. The body is not run and the persistence is unchanged. Entering the region never
  fails with \<^verbatim>\<open>TypeError\<close>.
\<close>

theorem record_run_lookup_and_assertion_errors:
  fixes full :: "'a FullStatePersistence" and simple :: SimpleStatePersistence
    and body :: "'w \<Rightarrow> (py_exception + 'b) \<times> 'w"
  shows "(sid \<notin> id_of ` set (history full) \<longrightarrow>
            record_run_full full sid now t0 t1 body w =
              (Inl (PyExc LookupError (''No snapshot found with id='' @ sid)), full, w))
       \<and> (find_snapshot (history full) sid = Some i \<and> history full ! i = EndSnap e \<longrightarrow>
            record_run_full full sid now t0 t1 body w =
              (Inl (PyExc AssertionError ''Only NodeSnapshot can be recorded''), full, w))
       \<and> (last_snapshot simple = None \<longrightarrow>
            record_run_simple simple sid now t0 t1 body w =
              (Inl (PyExc AssertionError ''No snapshot to record''), simple, w))
       \<and> (last_snapshot simple = Some (EndSnap e) \<longrightarrow>
            record_run_simple simple sid now t0 t1 body w =
              (Inl (PyExc AssertionError ''Only NodeSnapshot can be recorded''), simple, w))
       \<and> (last_snapshot simple = Some (NodeSnap z) \<and> sid \<noteq> snapshot_id z \<longrightarrow>
            (\<exists>m. record_run_simple simple sid now t0 t1 body w =
               (Inl (PyExc AssertionError m), simple, w)))
       \<and> record_run_enter_full full sid now \<noteq> Inl (PyExc TypeError m)
       \<and> record_run_enter_simple simple sid now \<noteq> Inl (PyExc TypeError m)"
  by (simp add: record_run_full_def record_run_enter_full_def record_run_simple_def
      record_run_enter_simple_def find_snapshot_None [symmetric]
      split: option.splits Snapshot.splits)

theorem record_run_lookup_and_assertion_errors_witness:
  "record_run_full
      ((FullStatePersistence_new :: unit FullStatePersistence)
         \<lparr>history := [NodeSnap (new_NodeSnapshot None 0 ''Foo:1'')]\<rparr>)
      ''Bar:2'' 1700000000 5 7 (\<lambda>w::unit. (Inr () :: py_exception + unit, w)) ()
     = (Inl (PyExc LookupError ''No snapshot found with id=Bar:2''),
        FullStatePersistence_new\<lparr>history := [NodeSnap (new_NodeSnapshot None 0 ''Foo:1'')]\<rparr>, ())
   \<and> record_run_full
      ((FullStatePersistence_new :: unit FullStatePersistence)
         \<lparr>history := [NodeSnap (new_NodeSnapshot None 0 ''Foo:1''),
                      EndSnap (new_EndSnapshot None 0 1700000000 ''end:2'')]\<rparr>)
      ''end:2'' 1700000001 5 7 (\<lambda>w::unit. (Inr () :: py_exception + unit, w)) ()
     = (Inl (PyExc AssertionError ''Only NodeSnapshot can be recorded''),
        FullStatePersistence_new\<lparr>history := [NodeSnap (new_NodeSnapshot None 0 ''Foo:1''),
                      EndSnap (new_EndSnapshot None 0 1700000000 ''end:2'')]\<rparr>, ())
   \<and> record_run_simple SimpleStatePersistence_new
      ''Bar:2'' 1700000000 5 7 (\<lambda>w::unit. (Inr () :: py_exception + unit, w)) ()
     = (Inl (PyExc AssertionError ''No snapshot to record''), SimpleStatePersistence_new, ())
   \<and> record_run_simple
      (SimpleStatePersistence_new
         \<lparr>last_snapshot := Some (EndSnap (new_EndSnapshot None 0 1700000000 ''end:2''))\<rparr>)
      ''end:2'' 1700000001 5 7 (\<lambda>w::unit. (Inr () :: py_exception + unit, w)) ()
     = (Inl (PyExc AssertionError ''Only NodeSnapshot can be recorded''),
        SimpleStatePersistence_new
         \<lparr>last_snapshot := Some (EndSnap (new_EndSnapshot None 0 1700000000 ''end:2''))\<rparr>, ())"
  using record_run_lookup_and_assertion_errors
    [where sid = "''Bar:2''" and now = 1700000000 and ?t0.0 = 5 and ?t1.0 = 7
       and body = "\<lambda>w::unit. (Inr () :: py_exception + unit, w)" and w = "()"
       and full = "(FullStatePersistence_new :: unit FullStatePersistence)
           \<lparr>history := [NodeSnap (new_NodeSnapshot None 0 ''Foo:1'')]\<rparr>"
       and simple = SimpleStatePersistence_new]
    record_run_lookup_and_assertion_errors
    [where sid = "''end:2''" and now = 1700000001 and ?t0.0 = 5 and ?t1.0 = 7
       and body = "\<lambda>w::unit. (Inr () :: py_exception + unit, w)" and w = "()"
       and i = 1 and e = "new_EndSnapshot None 0 1700000000 ''end:2''"
       and full = "(FullStatePersistence_new :: unit FullStatePersistence)
           \<lparr>history := [NodeSnap (new_NodeSnapshot None 0 ''Foo:1''),
                      EndSnap (new_EndSnapshot None 0 1700000000 ''end:2'')]\<rparr>"
       and simple = "SimpleStatePersistence_new
         \<lparr>last_snapshot := Some (EndSnap (new_EndSnapshot None 0 1700000000 ''end:2''))\<rparr>"]
  by (simp add: FullStatePersistence_new_def SimpleStatePersistence_new_def
      new_NodeSnapshot_def new_EndSnapshot_def)

theorem record_run_error_classes_counterexample:
  "\<not> (\<exists>m. fst (record_run_simple SimpleStatePersistence_new
        ''Foo:1'' 1700000000 5 7 (\<lambda>w::unit. (Inr () :: py_exception + unit, w)) ())
           = Inl (PyExc LookupError m))
   \<and> \<not> (\<exists>m. fst (record_run_full
      ((FullStatePersistence_new :: unit FullStatePersistence)
         \<lparr>history := [EndSnap (new_EndSnapshot None 0 1700000000 ''end:1'')]\<rparr>)
        ''end:1'' 1700000001 5 7 (\<lambda>w::unit. (Inr () :: py_exception + unit, w)) ())
           = Inl (PyExc TypeError m))"
  by (simp add: record_run_simple_def record_run_enter_simple_def SimpleStatePersistence_new_def
      record_run_full_def record_run_enter_full_def FullStatePersistence_new_def
      new_EndSnapshot_def)

text \<open>
  Claim C8, as amended. When the body of the region is cancelled
  (\<^verbatim>\<open>asyncio.CancelledError\<close>, which is not an instance of \<^verbatim>\<open>Exception\<close>), neither
  handler of \<^verbatim>\<open>record_run\<close> runs: the cancellation propagates, the snapshot keeps the
  status running and the \<^verbatim>\<open>start_ts\<close> set on entry, and no duration is recorded.
\<close>

theorem record_run_cancellation_leaves_running:
  fixes full :: "'a FullStatePersistence" and simple :: SimpleStatePersistence
    and body :: "'w \<Rightarrow> (py_exception + 'b) \<times> 'w"
  assumes "find_snapshot (history full) sid = Some i" and "history full ! i = NodeSnap s"
    and "last_snapshot simple = Some (NodeSnap s')" and "snapshot_id s' = sid'"
    and "body w = (Inl (PyExc CancelledError m), w')"
  shows "record_run_full full sid now t0 t1 body w =
           (Inl (PyExc CancelledError m),
            full\<lparr>history := (history full)
              [i := NodeSnap (s\<lparr>status := running, start_ts := Some now\<rparr>)]\<rparr>, w')
       \<and> record_run_simple simple sid' now t0 t1 body w =
           (Inl (PyExc CancelledError m),
            simple\<lparr>last_snapshot :=
              Some (NodeSnap (s'\<lparr>status := running, start_ts := Some now\<rparr>))\<rparr>, w')"
proof -
  have a: "record_run_full full sid now t0 t1 body w =
           (Inl (PyExc CancelledError m),
            full\<lparr>history := (history full)
              [i := NodeSnap (s\<lparr>status := running, start_ts := Some now\<rparr>)]\<rparr>, w')"
    using assms(1,2,5)
      record_run_full_found [of full sid i s body w "Inl (PyExc CancelledError m)" w' now t0 t1]
    by simp
  have b: "record_run_simple simple sid' now t0 t1 body w =
           (Inl (PyExc CancelledError m),
            simple\<lparr>last_snapshot :=
              Some (NodeSnap (s'\<lparr>status := running, start_ts := Some now\<rparr>))\<rparr>, w')"
    using assms(3,4,5)
      record_run_simple_found [of simple s' sid' body w "Inl (PyExc CancelledError m)" w' now t0 t1]
    by simp
  from a b show ?thesis by simp
qed

theorem record_run_cancellation_witness:
  "record_run_full
      ((FullStatePersistence_new :: unit FullStatePersistence)
         \<lparr>history := [NodeSnap (new_NodeSnapshot None 0 ''Foo:1'')]\<rparr>)
      ''Foo:1'' 1700000000 5 7
      (\<lambda>w::unit. (Inl (PyExc CancelledError '''') :: py_exception + unit, w)) ()
    = (Inl (PyExc CancelledError ''''),
       FullStatePersistence_new
         \<lparr>history := [NodeSnap \<lparr>state = None, node = 0, start_ts = Some 1700000000,
                        duration = None, status = running, snapshot_id = ''Foo:1''\<rparr>]\<rparr>, ())
   \<and> record_run_simple
      (SimpleStatePersistence_new\<lparr>last_snapshot := Some (NodeSnap (new_NodeSnapshot None 0 ''Foo:1''))\<rparr>)
      ''Foo:1'' 1700000000 5 7
      (\<lambda>w::unit. (Inl (PyExc CancelledError '''') :: py_exception + unit, w)) ()
    = (Inl (PyExc CancelledError ''''),
       SimpleStatePersistence_new\<lparr>last_snapshot := Some (NodeSnap
          \<lparr>state = None, node = 0, start_ts = Some 1700000000,
                        duration = None, status = running, snapshot_id = ''Foo:1''\<rparr>)\<rparr>, ())"
  using record_run_cancellation_leaves_running
    [of "(FullStatePersistence_new :: unit FullStatePersistence)
         \<lparr>history := [NodeSnap (new_NodeSnapshot None 0 ''Foo:1'')]\<rparr>"
        "''Foo:1''" 0 "new_NodeSnapshot None 0 ''Foo:1''"
        "SimpleStatePersistence_new\<lparr>last_snapshot := Some (NodeSnap (new_NodeSnapshot None 0 ''Foo:1''))\<rparr>"
        "new_NodeSnapshot None 0 ''Foo:1''" "''Foo:1''"
        "\<lambda>w::unit. (Inl (PyExc CancelledError '''') :: py_exception + unit, w)" "()"
        "''''" "()" 1700000000 5 7]
  by (simp add: FullStatePersistence_new_def SimpleStatePersistence_new_def new_NodeSnapshot_def)

theorem record_run_cancellation_counterexample:
  "\<not> (\<exists>d. last_snapshot (fst (snd (record_run_simple
      (SimpleStatePersistence_new\<lparr>last_snapshot := Some (NodeSnap (new_NodeSnapshot None 0 ''Foo:1''))\<rparr>)
      ''Foo:1'' 1700000000 5 7
      (\<lambda>w::unit. (Inl (PyExc CancelledError '''') :: py_exception + unit, w)) ())))
    = Some (NodeSnap \<lparr>state = None, node = 0, start_ts = Some 1700000000,
                        duration = Some d, status = error, snapshot_id = ''Foo:1''\<rparr>))"
  by (simp add: record_run_simple_def record_run_enter_simple_def record_run_exit_simple_def
      SimpleStatePersistence_new_def new_NodeSnapshot_def)

subsection \<open>The latest-only backend\<close>

text \<open>
  Claim C5. \<^verbatim>\<open>SimpleStatePersistence\<close> holds at most one snapshot (\<^verbatim>\<open>last_snapshot\<close>).
  A new persistence has none and \<^verbatim>\<open>restore\<close> returns \<^verbatim>\<open>None\<close>; \<^verbatim>\<open>restore\<close> returns
  \<^verbatim>\<open>last_snapshot\<close>. \<^verbatim>\<open>snapshot_node\<close> and \<^verbatim>\<open>snapshot_end\<close> replace \<^verbatim>\<open>last_snapshot\<close>, whatever
  it was, by the new snapshot: without \<^verbatim>\<open>deep_copy\<close> it holds the state and the node (or end
  marker) passed in and the store is unchanged, with \<^verbatim>\<open>deep_copy\<close> it holds new copies of
  them; a node snapshot is created with no \<^verbatim>\<open>start_ts\<close> and no duration, an end snapshot has
  the \<^verbatim>\<open>ts\<close> of its creation. \<^verbatim>\<open>record_run\<close> fails its assertion, leaving everything as it
  is, when the requested identifier is not the one of the current snapshot, and enters, on
  this snapshot, when it is.
\<close>

theorem simple_keeps_latest_snapshot_only:
  fixes self :: SimpleStatePersistence and st :: "('s, 'p, 'd) store"
    and body :: "'w \<Rightarrow> (py_exception + 'b) \<times> 'w"
  shows "restore_simple SimpleStatePersistence_new = None
       \<and> restore_simple self = last_snapshot self
       \<and> (\<not> deep_copy self \<longrightarrow>
            snapshot_node_simple self s n sid st =
              (self\<lparr>last_snapshot := Some (NodeSnap
                 \<lparr>state = s, node = n, start_ts = None, duration = None, status = created,
                  snapshot_id = sid\<rparr>)\<rparr>, st)
          \<and> snapshot_end_simple self s e now sid st =
              (self\<lparr>last_snapshot := Some (EndSnap
                 \<lparr>end_state = s, result = e, ts = now, end_snapshot_id = sid\<rparr>)\<rparr>, st))
       \<and> (deep_copy self \<longrightarrow>
            snapshot_node_simple self s n sid st =
              (self\<lparr>last_snapshot := Some (NodeSnap
                 \<lparr>state = (case s of None \<Rightarrow> None | Some r \<Rightarrow> Some (length (states st))),
                  node = length (nodes st), start_ts = None, duration = None,
                  status = created, snapshot_id = sid\<rparr>)\<rparr>,
               st\<lparr>states := states st @ (case s of None \<Rightarrow> [] | Some r \<Rightarrow> [states st ! r]),
                  nodes := nodes st @ [nodes st ! n]\<rparr>)
          \<and> snapshot_end_simple self s e now sid st =
              (self\<lparr>last_snapshot := Some (EndSnap
                 \<lparr>end_state = (case s of None \<Rightarrow> None | Some r \<Rightarrow> Some (length (states st))),
                  result = length (ends st), ts = now, end_snapshot_id = sid\<rparr>)\<rparr>,
               st\<lparr>states := states st @ (case s of None \<Rightarrow> [] | Some r \<Rightarrow> [states st ! r]),
                  ends := ends st @ [ends st ! e]\<rparr>))
       \<and> snapshot_node_simple (self\<lparr>last_snapshot := old\<rparr>) s n sid st =
           snapshot_node_simple self s n sid st
       \<and> snapshot_end_simple (self\<lparr>last_snapshot := old\<rparr>) s e now sid st =
           snapshot_end_simple self s e now sid st
       \<and> (last_snapshot self = Some (NodeSnap z) \<and> rid \<noteq> snapshot_id z \<longrightarrow>
            (\<exists>m. record_run_simple self rid now t0 t1 body w =
                   (Inl (PyExc AssertionError m), self, w)))
       \<and> (last_snapshot self = Some (NodeSnap z) \<and> rid = snapshot_id z \<longrightarrow>
            record_run_enter_simple self rid now =
              Inr (self\<lparr>last_snapshot :=
                Some (NodeSnap (z\<lparr>status := running, start_ts := Some now\<rparr>))\<rparr>))"
proof -
  have a: "\<not> deep_copy self \<longrightarrow>
            snapshot_node_simple self s n sid st =
              (self\<lparr>last_snapshot := Some (NodeSnap
                 \<lparr>state = s, node = n, start_ts = None, duration = None, status = created,
                  snapshot_id = sid\<rparr>)\<rparr>, st)
          \<and> snapshot_end_simple self s e now sid st =
              (self\<lparr>last_snapshot := Some (EndSnap
                 \<lparr>end_state = s, result = e, ts = now, end_snapshot_id = sid\<rparr>)\<rparr>, st)"
    by (simp add: snapshot_node_simple_def snapshot_end_simple_def prep_state_def
        prep_node_def prep_end_def new_NodeSnapshot_def new_EndSnapshot_def)
  have b: "deep_copy self \<longrightarrow>
            snapshot_node_simple self s n sid st =
              (self\<lparr>last_snapshot := Some (NodeSnap
                 \<lparr>state = (case s of None \<Rightarrow> None | Some r \<Rightarrow> Some (length (states st))),
                  node = length (nodes st), start_ts = None, duration = None,
                  status = created, snapshot_id = sid\<rparr>)\<rparr>,
               st\<lparr>states := states st @ (case s of None \<Rightarrow> [] | Some r \<Rightarrow> [states st ! r]),
                  nodes := nodes st @ [nodes st ! n]\<rparr>)
          \<and> snapshot_end_simple self s e now sid st =
              (self\<lparr>last_snapshot := Some (EndSnap
                 \<lparr>end_state = (case s of None \<Rightarrow> None | Some r \<Rightarrow> Some (length (states st))),
                  result = length (ends st), ts = now, end_snapshot_id = sid\<rparr>)\<rparr>,
               st\<lparr>states := states st @ (case s of None \<Rightarrow> [] | Some r \<Rightarrow> [states st ! r]),
                  ends := ends st @ [ends st ! e]\<rparr>)"
    by (cases s)
      (simp_all add: snapshot_node_simple_def snapshot_end_simple_def prep_state_def
        prep_node_def prep_end_def new_NodeSnapshot_def new_EndSnapshot_def deepcopy_def
        deep_copy_node_def deep_copy_data_def)
  have c: "snapshot_node_simple (self\<lparr>last_snapshot := old\<rparr>) s n sid st =
           snapshot_node_simple self s n sid st
       \<and> snapshot_end_simple (self\<lparr>last_snapshot := old\<rparr>) s e now sid st =
           snapshot_end_simple self s e now sid st"
    by (simp add: snapshot_node_simple_def snapshot_end_simple_def prep_state_def
        prep_node_def prep_end_def split: prod.splits)
  have d: "last_snapshot self = Some (NodeSnap z) \<and> rid \<noteq> snapshot_id z \<longrightarrow>
            (\<exists>m. record_run_simple self rid now t0 t1 body w =
                   (Inl (PyExc AssertionError m), self, w))"
    by (simp add: record_run_simple_def record_run_enter_simple_def)
  have e: "last_snapshot self = Some (NodeSnap z) \<and> rid = snapshot_id z \<longrightarrow>
            record_run_enter_simple self rid now =
              Inr (self\<lparr>last_snapshot :=
                Some (NodeSnap (z\<lparr>status := running, start_ts := Some now\<rparr>))\<rparr>)"
    by (simp add: record_run_enter_simple_def)
  have r: "restore_simple SimpleStatePersistence_new = None"
    by (simp add: restore_simple_def SimpleStatePersistence_new_def)
  have r': "restore_simple self = last_snapshot self"
    by (simp add: restore_simple_def)
  show ?thesis
    using r r' a b c [THEN conjunct1] c [THEN conjunct2] d e
    by - (intro conjI, assumption+)
qed

theorem simple_keeps_latest_snapshot_only_witness:
  "snapshot_node_simple SimpleStatePersistence_new (Some 0) 1 ''Bar:2''
      \<lparr>states = [(2 :: int, '''')], nodes = [(''Foo'', ()), (''Bar'', ())], ends = [4 :: int]\<rparr>
     = (SimpleStatePersistence_new\<lparr>last_snapshot := Some (NodeSnap
          \<lparr>state = Some 0, node = 1, start_ts = None, duration = None, status = created,
           snapshot_id = ''Bar:2''\<rparr>)\<rparr>,
        \<lparr>states = [(2, '''')], nodes = [(''Foo'', ()), (''Bar'', ())], ends = [4]\<rparr>)
   \<and> snapshot_end_simple
      (SimpleStatePersistence_new\<lparr>deep_copy := True, last_snapshot := Some (NodeSnap
          \<lparr>state = Some 0, node = 1, start_ts = None, duration = None, status = created,
           snapshot_id = ''Bar:2''\<rparr>)\<rparr>)
      (Some 0) 0 1700000000 ''end:3''
      \<lparr>states = [(2 :: int, ''y'')], nodes = [(''Foo'', ()), (''Bar'', ())], ends = [4 :: int]\<rparr>
     = (SimpleStatePersistence_new\<lparr>deep_copy := True, last_snapshot := Some (EndSnap
          \<lparr>end_state = Some 1, result = 1, ts = 1700000000, end_snapshot_id = ''end:3''\<rparr>)\<rparr>,
        \<lparr>states = [(2, ''y''), (2, ''y'')], nodes = [(''Foo'', ()), (''Bar'', ())],
         ends = [4, 4]\<rparr>)
   \<and> (\<exists>m. record_run_simple
        (SimpleStatePersistence_new\<lparr>last_snapshot := Some (NodeSnap
          \<lparr>state = Some 0, node = 1, start_ts = None, duration = None, status = created,
           snapshot_id = ''Bar:2''\<rparr>)\<rparr>)
        ''Foo:1'' 1700000000 5 7 (\<lambda>w::unit. (Inr () :: py_exception + unit, w)) ()
       = (Inl (PyExc AssertionError m),
          SimpleStatePersistence_new\<lparr>last_snapshot := Some (NodeSnap
          \<lparr>state = Some 0, node = 1, start_ts = None, duration = None, status = created,
           snapshot_id = ''Bar:2''\<rparr>)\<rparr>, ()))"
proof -
  let ?x = "\<lparr>state = Some 0, node = 1, start_ts = None, duration = None, status = created,
           snapshot_id = ''Bar:2''\<rparr>"
  note t1 = simple_keeps_latest_snapshot_only
    [where self = SimpleStatePersistence_new and s = "Some 0" and n = 1 and sid = "''Bar:2''"
       and st = "\<lparr>states = [(2 :: int, '''')], nodes = [(''Foo'', ()), (''Bar'', ())],
          ends = [4 :: int]\<rparr>"]
  note t2 = simple_keeps_latest_snapshot_only
    [where self = "SimpleStatePersistence_new\<lparr>deep_copy := True,
          last_snapshot := Some (NodeSnap ?x)\<rparr>"
       and s = "Some 0" and e = 0 and now = 1700000000 and sid = "''end:3''"
       and st = "\<lparr>states = [(2 :: int, ''y'')], nodes = [(''Foo'', ()), (''Bar'', ())],
          ends = [4 :: int]\<rparr>"]
  note t3 = simple_keeps_latest_snapshot_only
    [where self = "SimpleStatePersistence_new\<lparr>last_snapshot := Some (NodeSnap ?x)\<rparr>"
       and z = ?x and rid = "''Foo:1''" and now = 1700000000 and ?t0.0 = 5 and ?t1.0 = 7
       and body = "\<lambda>w::unit. (Inr () :: py_exception + unit, w)" and w = "()"]
  have d: "\<not> deep_copy SimpleStatePersistence_new"
    by (simp add: SimpleStatePersistence_new_def)
  from t1 [THEN conjunct2, THEN conjunct2, THEN conjunct1, THEN mp, OF d, THEN conjunct1]
  have a: "snapshot_node_simple SimpleStatePersistence_new (Some 0) 1 ''Bar:2''
      \<lparr>states = [(2 :: int, '''')], nodes = [(''Foo'', ()), (''Bar'', ())], ends = [4 :: int]\<rparr>
     = (SimpleStatePersistence_new\<lparr>last_snapshot := Some (NodeSnap ?x)\<rparr>,
        \<lparr>states = [(2, '''')], nodes = [(''Foo'', ()), (''Bar'', ())], ends = [4]\<rparr>)"
    by simp
  from t2 [THEN conjunct2, THEN conjunct2, THEN conjunct2, THEN conjunct1]
  have b: "snapshot_end_simple
      (SimpleStatePersistence_new\<lparr>deep_copy := True, last_snapshot := Some (NodeSnap ?x)\<rparr>)
      (Some 0) 0 1700000000 ''end:3''
      \<lparr>states = [(2 :: int, ''y'')], nodes = [(''Foo'', ()), (''Bar'', ())], ends = [4 :: int]\<rparr>
     = (SimpleStatePersistence_new\<lparr>deep_copy := True, last_snapshot := Some (EndSnap
          \<lparr>end_state = Some 1, result = 1, ts = 1700000000, end_snapshot_id = ''end:3''\<rparr>)\<rparr>,
        \<lparr>states = [(2, ''y''), (2, ''y'')], nodes = [(''Foo'', ()), (''Bar'', ())],
         ends = [4, 4]\<rparr>)"
    by simp
  from t3 [THEN conjunct2, THEN conjunct2, THEN conjunct2, THEN conjunct2, THEN conjunct2,
      THEN conjunct2, THEN conjunct1]
  have c: "\<exists>m. record_run_simple
        (SimpleStatePersistence_new\<lparr>last_snapshot := Some (NodeSnap ?x)\<rparr>)
        ''Foo:1'' 1700000000 5 7 (\<lambda>w::unit. (Inr () :: py_exception + unit, w)) ()
       = (Inl (PyExc AssertionError m),
          SimpleStatePersistence_new\<lparr>last_snapshot := Some (NodeSnap ?x)\<rparr>, ())"
    by simp
  from a b c show ?thesis
    by (intro conjI)
qed

subsection \<open>The type adapter\<close>

text \<open>
  Claim C10. Only the first call of \<^verbatim>\<open>FullStatePersistence.set_types\<close> takes effect: once
  a type adapter is set, a call of \<^verbatim>\<open>set_types\<close> does not invoke the callback (its state
  is unchanged) and keeps the adapter, whatever types the callback would supply; and after a
  call that returned, the adapter is set and every further call changes nothing.
\<close>

theorem set_types_only_first_call_takes_effect:
  fixes self :: "'a FullStatePersistence"
    and get_types get_types' :: "'w \<Rightarrow> (py_exception + 't \<times> 't) \<times> 'w"
  shows "(snapshots_type_adapter self = Some adapter \<longrightarrow>
            set_types build self get_types w = (None, self, w))
       \<and> (set_types build self get_types w = (None, self', w') \<longrightarrow>
            snapshots_type_adapter self' \<noteq> None
          \<and> set_types build' self' get_types' w'' = (None, self', w''))"
  by (auto simp add: set_types_def split: option.splits sum.splits prod.splits)

theorem set_types_only_first_call_witness:
  "set_types (\<lambda>s r. Inr (s, r)) (FullStatePersistence_new :: (string \<times> string) FullStatePersistence)
      (\<lambda>calls::nat. (Inr (''MyState'', ''int''), calls + 1)) 0
     = (None, FullStatePersistence_new\<lparr>snapshots_type_adapter := Some (''MyState'', ''int'')\<rparr>, 1)
   \<and> set_types (\<lambda>s r. Inr (r, s))
      ((FullStatePersistence_new :: (string \<times> string) FullStatePersistence)
         \<lparr>snapshots_type_adapter := Some (''MyState'', ''int'')\<rparr>)
      (\<lambda>calls::nat. (Inr (''Other'', ''str''), calls + 1)) 1
     = (None, FullStatePersistence_new\<lparr>snapshots_type_adapter := Some (''MyState'', ''int'')\<rparr>, 1)"
  using set_types_only_first_call_takes_effect
    [where self = "FullStatePersistence_new :: (string \<times> string) FullStatePersistence"
       and build = "\<lambda>s r. Inr (s, r)" and build' = "\<lambda>s r. Inr (r, s)"
       and get_types = "\<lambda>calls::nat. (Inr (''MyState'', ''int''), calls + 1)"
       and get_types' = "\<lambda>calls::nat. (Inr (''Other'', ''str''), calls + 1)"
       and w = 0 and w' = 1 and w'' = 1
       and self' = "FullStatePersistence_new\<lparr>snapshots_type_adapter := Some (''MyState'', ''int'')\<rparr>"]
  by (simp add: set_types_def FullStatePersistence_new_def)

subsection \<open>Deep copies\<close>

lemma captured_mutate:
  assumes "private_refs r st h"
  shows "map (captured_state (mutate_state r v st)) h = map (captured_state st) h"
  using assms
  by (auto simp: private_refs_def captured_state_def mutate_state_def map_option_case
      split: option.splits)

lemma captured_append:
  assumes "private_refs r st h" and "states st' = states st @ xs"
  shows "map (captured_state st') h = map (captured_state st) h"
  using assms
  by (auto simp: private_refs_def captured_state_def nth_append map_option_case
      split: option.splits)

lemma snapshot_node_full_deep:
  assumes "deep_copy self"
  shows "snapshot_node_full self (Some r) n sid st =
     (self\<lparr>history := history self @ [NodeSnap (new_NodeSnapshot (Some (length (states st)))
              (length (nodes st)) sid)]\<rparr>,
      st\<lparr>states := states st @ [states st ! r], nodes := nodes st @ [nodes st ! n]\<rparr>)"
  using assms
  by (simp add: snapshot_node_full_def prep_state_def prep_node_def deepcopy_def
      deep_copy_node_def)

lemma snapshot_end_full_deep:
  assumes "deep_copy self"
  shows "snapshot_end_full self (Some r) e now sid st =
     (self\<lparr>history := history self @ [EndSnap (new_EndSnapshot (Some (length (states st)))
              (length (ends st)) now sid)]\<rparr>,
      st\<lparr>states := states st @ [states st ! r], ends := ends st @ [ends st ! e]\<rparr>)"
  using assms
  by (simp add: snapshot_end_full_def prep_state_def prep_end_def deepcopy_def
      deep_copy_data_def)

lemma run_steps_captured:
  assumes "deep_copy self" and "r < length (states st)" and "private_refs r st (history self)"
  shows "map (captured_state (snd (run_steps r ops (self, st))))
             (history (fst (run_steps r ops (self, st))))
         = map (captured_state st) (history self) @ map Some (states_seen ops (states st ! r))"
  using assms
proof (induction ops arbitrary: self st)
  case Nil
  then show ?case by simp
next
  case (Cons op ops)
  show ?case
  proof (cases op)
    case (Capture_node n sid)
    let ?st = "st\<lparr>states := states st @ [states st ! r], nodes := nodes st @ [nodes st ! n]\<rparr>"
    let ?self = "self\<lparr>history := history self @ [NodeSnap (new_NodeSnapshot (Some (length (states st)))
              (length (nodes st)) sid)]\<rparr>"
    have p: "private_refs r ?st (history ?self)"
      using Cons.prems(2,3) by (auto simp: private_refs_def new_NodeSnapshot_def)
    have c: "map (captured_state ?st) (history ?self)
             = map (captured_state st) (history self) @ [Some (states st ! r)]"
      using captured_append [OF Cons.prems(3), of ?st "[states st ! r]"]
      by (simp add: captured_state_def new_NodeSnapshot_def)
    have "states ?st ! r = states st ! r"
      using Cons.prems(2) by (simp add: nth_append)
    with Cons.IH [of ?self ?st] p c Cons.prems(1,2) show ?thesis
      by (simp add: Capture_node snapshot_node_full_deep [OF Cons.prems(1)])
  next
    case (Capture_end e now sid)
    let ?st = "st\<lparr>states := states st @ [states st ! r], ends := ends st @ [ends st ! e]\<rparr>"
    let ?self = "self\<lparr>history := history self @ [EndSnap (new_EndSnapshot (Some (length (states st)))
              (length (ends st)) now sid)]\<rparr>"
    have p: "private_refs r ?st (history ?self)"
      using Cons.prems(2,3) by (auto simp: private_refs_def new_EndSnapshot_def)
    have c: "map (captured_state ?st) (history ?self)
             = map (captured_state st) (history self) @ [Some (states st ! r)]"
      using captured_append [OF Cons.prems(3), of ?st "[states st ! r]"]
      by (simp add: captured_state_def new_EndSnapshot_def)
    have "states ?st ! r = states st ! r"
      using Cons.prems(2) by (simp add: nth_append)
    with Cons.IH [of ?self ?st] p c Cons.prems(1,2) show ?thesis
      by (simp add: Capture_end snapshot_end_full_deep [OF Cons.prems(1)])
  next
    case (Mutate v)
    have p: "private_refs r (mutate_state r v st) (history self)"
      using Cons.prems(3) by (simp add: private_refs_def mutate_state_def)
    have "states (mutate_state r v st) ! r = v"
      using Cons.prems(2) by (simp add: mutate_state_def)
    moreover have "length (states (mutate_state r v st)) = length (states st)"
      by (simp add: mutate_state_def)
    ultimately show ?thesis
      using Cons.IH [of self "mutate_state r v st"] p Cons.prems
        captured_mutate [OF Cons.prems(3), of v]
      by (simp add: Mutate)
  qed
qed

lemma snapshot_node_simple_deep:
  assumes "deep_copy self"
  shows "snapshot_node_simple self (Some r) n sid st =
     (self\<lparr>last_snapshot := Some (NodeSnap (new_NodeSnapshot (Some (length (states st)))
              (length (nodes st)) sid))\<rparr>,
      st\<lparr>states := states st @ [states st ! r], nodes := nodes st @ [nodes st ! n]\<rparr>)"
  using assms
  by (simp add: snapshot_node_simple_def prep_state_def prep_node_def deepcopy_def
      deep_copy_node_def)

lemma snapshot_end_simple_deep:
  assumes "deep_copy self"
  shows "snapshot_end_simple self (Some r) e now sid st =
     (self\<lparr>last_snapshot := Some (EndSnap (new_EndSnapshot (Some (length (states st)))
              (length (ends st)) now sid))\<rparr>,
      st\<lparr>states := states st @ [states st ! r], ends := ends st @ [ends st ! e]\<rparr>)"
  using assms
  by (simp add: snapshot_end_simple_def prep_state_def prep_end_def deepcopy_def
      deep_copy_data_def)

text \<open>
  Claim C4. \<^verbatim>\<open>SimpleStatePersistence\<close> defaults \<^verbatim>\<open>deep_copy\<close> to False and
  \<^verbatim>\<open>FullStatePersistence\<close> to True. With \<^verbatim>\<open>deep_copy\<close> enabled, \<^verbatim>\<open>snapshot_node\<close> and
  \<^verbatim>\<open>snapshot_end\<close> of both backends store references to new objects, copies of the state
  and of the node (or of the end marker) as they are at capture time. Hence, in a run of
  captures and mutations of the state, the state field of every snapshot of the history
  holds the value the state had when the snapshot was taken: a later mutation alters no
  earlier snapshot. For the latest-only backend: a mutation of the state after
  \<^verbatim>\<open>snapshot_node\<close> or \<^verbatim>\<open>snapshot_end\<close> leaves the state field of its snapshot as captured.
\<close>

theorem deep_copy_captures_independent_copies:
  fixes self :: "'a FullStatePersistence" and simple :: SimpleStatePersistence
    and st :: "('s, 'p, 'd) store"
  assumes "deep_copy self" and "deep_copy simple"
    and "r < length (states st)" and "private_refs r st (history self)"
  shows "deep_copy SimpleStatePersistence_new = False
       \<and> deep_copy (FullStatePersistence_new :: 'a FullStatePersistence) = True
       \<and> snapshot_node_full self (Some r) n sid st =
           (self\<lparr>history := history self @ [NodeSnap (new_NodeSnapshot (Some (length (states st)))
                 (length (nodes st)) sid)]\<rparr>,
            st\<lparr>states := states st @ [states st ! r], nodes := nodes st @ [nodes st ! n]\<rparr>)
       \<and> snapshot_end_full self (Some r) e now sid st =
           (self\<lparr>history := history self @ [EndSnap (new_EndSnapshot (Some (length (states st)))
                 (length (ends st)) now sid)]\<rparr>,
            st\<lparr>states := states st @ [states st ! r], ends := ends st @ [ends st ! e]\<rparr>)
       \<and> snapshot_node_simple simple (Some r) n sid st =
           (simple\<lparr>last_snapshot := Some (NodeSnap (new_NodeSnapshot (Some (length (states st)))
                 (length (nodes st)) sid))\<rparr>,
            st\<lparr>states := states st @ [states st ! r], nodes := nodes st @ [nodes st ! n]\<rparr>)
       \<and> snapshot_end_simple simple (Some r) e now sid st =
           (simple\<lparr>last_snapshot := Some (EndSnap (new_EndSnapshot (Some (length (states st)))
                 (length (ends st)) now sid))\<rparr>,
            st\<lparr>states := states st @ [states st ! r], ends := ends st @ [ends st ! e]\<rparr>)
       \<and> map (captured_state (snd (run_steps r ops (self, st))))
             (history (fst (run_steps r ops (self, st))))
           = map (captured_state st) (history self) @ map Some (states_seen ops (states st ! r))
       \<and> map_option (captured_state (mutate_state r v (snd (snapshot_node_simple simple (Some r) n sid st))))
             (last_snapshot (fst (snapshot_node_simple simple (Some r) n sid st)))
           = Some (Some (states st ! r))
       \<and> map_option (captured_state (mutate_state r v (snd (snapshot_end_simple simple (Some r) e now sid st))))
             (last_snapshot (fst (snapshot_end_simple simple (Some r) e now sid st)))
           = Some (Some (states st ! r))"
proof -
  have d: "deep_copy SimpleStatePersistence_new = False
       \<and> deep_copy (FullStatePersistence_new :: 'a FullStatePersistence) = True"
    by (simp add: SimpleStatePersistence_new_def FullStatePersistence_new_def)
  have sn: "map_option
        (captured_state (mutate_state r v (snd (snapshot_node_simple simple (Some r) n sid st))))
        (last_snapshot (fst (snapshot_node_simple simple (Some r) n sid st)))
      = Some (Some (states st ! r))"
    using assms(3)
    by (simp add: snapshot_node_simple_deep [OF assms(2)] captured_state_def mutate_state_def
        new_NodeSnapshot_def nth_append)
  have se: "map_option
        (captured_state (mutate_state r v (snd (snapshot_end_simple simple (Some r) e now sid st))))
        (last_snapshot (fst (snapshot_end_simple simple (Some r) e now sid st)))
      = Some (Some (states st ! r))"
    using assms(3)
    by (simp add: snapshot_end_simple_deep [OF assms(2)] captured_state_def mutate_state_def
        new_EndSnapshot_def nth_append)
  show ?thesis
    using d sn se snapshot_node_full_deep [OF assms(1), of r n sid st]
      snapshot_end_full_deep [OF assms(1), of r e now sid st]
      snapshot_node_simple_deep [OF assms(2), of r n sid st]
      snapshot_end_simple_deep [OF assms(2), of r e now sid st]
      run_steps_captured [OF assms(1,3,4), of ops]
    by simp
qed

theorem deep_copy_captures_witness:
  "map (captured_state (snd (run_steps 0
          [Capture_node 0 ''Foo:1'', Mutate (2, ''''), Capture_node 1 ''Bar:2'', Mutate (2, ''y''),
           Capture_end 0 1700000000 ''end:3'']
          (FullStatePersistence_new :: unit FullStatePersistence,
           \<lparr>states = [(1 :: int, '''')], nodes = [(''Foo'', ()), (''Bar'', ())],
            ends = [4 :: int]\<rparr>))))
       (history (fst (run_steps 0
          [Capture_node 0 ''Foo:1'', Mutate (2, ''''), Capture_node 1 ''Bar:2'', Mutate (2, ''y''),
           Capture_end 0 1700000000 ''end:3'']
          (FullStatePersistence_new :: unit FullStatePersistence,
           \<lparr>states = [(1 :: int, '''')], nodes = [(''Foo'', ()), (''Bar'', ())],
            ends = [4 :: int]\<rparr>))))
     = [Some (1, ''''), Some (2, ''''), Some (2, ''y'')]"
proof -
  let ?st = "\<lparr>states = [(1 :: int, '''')], nodes = [(''Foo'', ()), (''Bar'', ())],
            ends = [4 :: int]\<rparr>"
  have h: "history (FullStatePersistence_new :: unit FullStatePersistence) = []"
    by (simp add: FullStatePersistence_new_def)
  have a: "deep_copy (FullStatePersistence_new :: unit FullStatePersistence)"
    by (simp add: FullStatePersistence_new_def)
  have b: "deep_copy (SimpleStatePersistence_new\<lparr>deep_copy := True\<rparr>)"
    by simp
  have c: "0 < length (states ?st)"
    by simp
  have d: "private_refs 0 ?st (history (FullStatePersistence_new :: unit FullStatePersistence))"
    by (simp add: private_refs_def h)
  note t = deep_copy_captures_independent_copies [OF a b c d,
      where n = 0 and e = 0 and now = 0 and sid = "''x''"
        and ops = "[Capture_node 0 ''Foo:1'', Mutate (2, ''''), Capture_node 1 ''Bar:2'', Mutate (2, ''y''),
           Capture_end 0 1700000000 ''end:3'']"]
  from t [THEN conjunct2, THEN conjunct2, THEN conjunct2, THEN conjunct2, THEN conjunct2,
      THEN conjunct2]
  show ?thesis
    by (simp add: h)
qed

subsection \<open>Identifiers, the allocator and the run loop\<close>



































subsection \<open>Snapshot identifiers\<close>








subsection \<open>Missing node references\<close>

lemma keys_add_bad_edge: "fst ` set (add_bad_edge e r bad) = insert e (fst ` set bad)"
proof (induction bad)
  case Nil
  then show ?case by simp
next
  case (Cons a bad)
  obtain k rs where a: "a = (k, rs)" by (cases a)
  show ?case
    using Cons.IH by (cases "k = e") (auto simp: a)
qed

lemma keys_inner:
  "fst ` set (foldl (\<lambda>bad edge. if edge \<in> K then bad else add_bad_edge edge n bad) bad es)
     = fst ` set bad \<union> (set es - K)"
  by (induction es arbitrary: bad) (auto simp: keys_add_bad_edge)

lemma keys_outer:
  "fst ` set (foldl (\<lambda>bad (node_id, edges).
        foldl (\<lambda>bad edge. if edge \<in> K then bad else add_bad_edge edge node_id bad) bad edges)
       bad g)
     = fst ` set bad \<union> ((\<Union>(n, es) \<in> set g. set es) - K)"
proof (induction g arbitrary: bad)
  case Nil
  then show ?case by simp
next
  case (Cons a g)
  obtain n es where a: "a = (n, es)" by (cases a)
  show ?case
    by (simp add: a Cons.IH keys_inner) blast
qed

lemma keys_bad_edges:
  "fst ` set (bad_edges g) = (\<Union>(n, es) \<in> set g. set es) - fst ` set g"
  using keys_outer [of "set (map fst g)" "[]" g] by (simp add: bad_edges_def)

lemma add_referrers_Nil: "add_referrers old [] = old"
  by (simp add: add_referrers_def)

lemma add_referrers_append: "add_referrers (add_referrers old xs) ys = add_referrers old (xs @ ys)"
  by (simp add: add_referrers_def)

lemma map_of_add_bad_edge:
  "map_of (add_bad_edge e r bad) x = (if x = e then add_referrers (map_of bad e) [r] else map_of bad x)"
proof (induction bad)
  case Nil
  then show ?case by (simp add: add_referrers_def)
next
  case (Cons a bad)
  obtain k rs where a: "a = (k, rs)" by (cases a)
  show ?case
    using Cons.IH by (auto simp: a add_referrers_def)
qed

lemma distinct_add_bad_edge:
  "distinct (map fst bad) \<Longrightarrow> distinct (map fst (add_bad_edge e r bad))"
proof (induction bad)
  case Nil
  then show ?case by simp
next
  case (Cons a bad)
  obtain k rs where a: "a = (k, rs)" by (cases a)
  have "set (map fst (add_bad_edge e r bad)) = insert e (set (map fst bad))"
    using keys_add_bad_edge [of e r bad] by simp
  with Cons show ?case
    by (auto simp: a)
qed

lemma nonempty_add_bad_edge:
  "\<forall>b \<in> set bad. snd b \<noteq> [] \<Longrightarrow> \<forall>b \<in> set (add_bad_edge e r bad). snd b \<noteq> []"
  by (induction bad) (force split: if_splits)+

lemma inner_props:
  assumes "distinct (map fst bad)" and "\<forall>b \<in> set bad. snd b \<noteq> []"
  shows "distinct (map fst
           (foldl (\<lambda>bad edge. if edge \<in> K then bad else add_bad_edge edge n bad) bad es))
       \<and> (\<forall>b \<in> set (foldl (\<lambda>bad edge. if edge \<in> K then bad else add_bad_edge edge n bad)
              bad es). snd b \<noteq> [])
       \<and> (x \<notin> K \<longrightarrow>
            map_of (foldl (\<lambda>bad edge. if edge \<in> K then bad else add_bad_edge edge n bad) bad es) x
              = add_referrers (map_of bad x) (map (\<lambda>e. n) (filter (\<lambda>e. e = x) es)))"
  using assms
proof (induction es arbitrary: bad)
  case Nil
  then show ?case by (simp add: add_referrers_Nil)
next
  case (Cons e es)
  show ?case
  proof (cases "e \<in> K")
    case True
    with Cons.IH [OF Cons.prems] show ?thesis
      by auto
  next
    case False
    have d: "distinct (map fst (add_bad_edge e n bad))"
      using Cons.prems(1) by (rule distinct_add_bad_edge)
    have ne: "\<forall>b \<in> set (add_bad_edge e n bad). snd b \<noteq> []"
      using Cons.prems(2) by (rule nonempty_add_bad_edge)
    from Cons.IH [OF d ne] False show ?thesis
      by (simp add: map_of_add_bad_edge add_referrers_append add_referrers_Nil)
  qed
qed

lemma outer_props:
  assumes "distinct (map fst bad)" and "\<forall>b \<in> set bad. snd b \<noteq> []"
  shows "distinct (map fst (foldl (\<lambda>bad (node_id, edges).
           foldl (\<lambda>bad edge. if edge \<in> K then bad else add_bad_edge edge node_id bad) bad edges)
           bad g))
       \<and> (\<forall>b \<in> set (foldl (\<lambda>bad (node_id, edges).
           foldl (\<lambda>bad edge. if edge \<in> K then bad else add_bad_edge edge node_id bad) bad edges)
           bad g). snd b \<noteq> [])
       \<and> (x \<notin> K \<longrightarrow>
            map_of (foldl (\<lambda>bad (node_id, edges).
              foldl (\<lambda>bad edge. if edge \<in> K then bad else add_bad_edge edge node_id bad) bad edges)
              bad g) x
              = add_referrers (map_of bad x) (referrers g x))"
  using assms
proof (induction g arbitrary: bad)
  case Nil
  then show ?case by (simp add: referrers_def add_referrers_Nil)
next
  case (Cons a g)
  obtain n es where a: "a = (n, es)" by (cases a)
  let ?b = "foldl (\<lambda>bad edge. if edge \<in> K then bad else add_bad_edge edge n bad) bad es"
  note i = inner_props [OF Cons.prems, of K n es x]
  from i have d: "distinct (map fst ?b)" and ne: "\<forall>b \<in> set ?b. snd b \<noteq> []"
    by simp_all
  from Cons.IH [OF d ne] i show ?case
    by (simp add: a referrers_def add_referrers_append)
qed

lemma bad_edges_props:
  "distinct (map fst (bad_edges g))
   \<and> (\<forall>b \<in> set (bad_edges g). snd b \<noteq> [])
   \<and> (x \<notin> fst ` set g \<longrightarrow>
        map_of (bad_edges g) x = (if referrers g x = [] then None else Some (referrers g x)))"
  using outer_props [of "[]" "set (map fst g)" g x]
  by (simp add: bad_edges_def add_referrers_def)

lemma bad_edges_referrers:
  assumes "(x, rs) \<in> set (bad_edges g)"
  shows "x \<notin> fst ` set g \<and> rs = referrers g x \<and> rs \<noteq> []"
proof -
  from assms have "x \<in> fst ` set (bad_edges g)"
    by force
  then have x: "x \<notin> fst ` set g"
    by (simp add: keys_bad_edges)
  from bad_edges_props [of g x] assms have "map_of (bad_edges g) x = Some rs"
    by simp
  with bad_edges_props [of g x] x show ?thesis
    by (auto split: if_splits)
qed

lemma validate_edges_ok:
  "validate_edges g = Inr () \<longleftrightarrow> (\<forall>(n, es) \<in> set g. set es \<subseteq> fst ` set g)"
proof -
  have "validate_edges g = Inr () \<longleftrightarrow> bad_edges g = []"
    by (cases "bad_edges g"; cases "tl (bad_edges g)") (auto simp: validate_edges_def)
  also have "\<dots> \<longleftrightarrow> fst ` set (bad_edges g) = {}"
    by simp
  also have "\<dots> \<longleftrightarrow> (\<forall>(n, es) \<in> set g. set es \<subseteq> fst ` set g)"
    unfolding keys_bad_edges by auto
  finally show ?thesis .
qed

lemma validate_edges_one:
  assumes "bad_edges g = [(x, rs)]"
  shows "validate_edges g = Inl (PyExc GraphSetupError
     (''`'' @ x @ ''` is referenced by '' @ comma_and (map backquote rs)
        @ '' but not included in the graph.''))"
  using assms by (simp add: validate_edges_def bad_edge_line_def backquote_def)

lemma validate_edges_many:
  assumes "2 \<le> length (bad_edges g)"
  shows "validate_edges g = Inl (PyExc GraphSetupError
     (''Nodes are referenced in the graph but not included in the graph:''
        @ concat (map (\<lambda>(x, rs). [CHR 0x0A] @ '' `'' @ x @ ''` is referenced by ''
             @ comma_and (map backquote rs)) (bad_edges g))))"
proof -
  obtain a b bs where l: "bad_edges g = a # b # bs"
    using assms by (cases "bad_edges g"; cases "tl (bad_edges g)") auto
  show ?thesis
    by (simp add: validate_edges_def l bad_edge_line_def backquote_def case_prod_unfold
        comp_def)
qed

text \<open>
  Claim C9. The check of the edges succeeds exactly when every referenced node is declared;
  otherwise it raises a setup error. For one missing node \<open>x\<close> with one referrer \<open>y\<close> the
  message is \<^verbatim>\<open>`x` is referenced by `y` but not included in the graph.\<close>; for one missing
  node with several referrers they are listed separated by commas, with \<^verbatim>\<open>and\<close> before the
  last; for several missing nodes the message is a header followed by one line for each
  missing node that lists its referrers. The report has each missing node once, the
  missing nodes are the referenced nodes that are not declared, and the referrers listed
  for a node are the declared nodes that reference it, in order.
\<close>

theorem missing_reference_messages:
  "(validate_edges g = Inr () \<longleftrightarrow> (\<forall>(n, es) \<in> set g. set es \<subseteq> fst ` set g))
   \<and> (bad_edges g = [(x, [y])] \<longrightarrow>
        validate_edges g = Inl (PyExc GraphSetupError
          (''`'' @ x @ ''` is referenced by `'' @ y @ ''` but not included in the graph.'')))
   \<and> (bad_edges g = [(x, rs)] \<and> 2 \<le> length rs \<longrightarrow>
        validate_edges g = Inl (PyExc GraphSetupError
          (''`'' @ x @ ''` is referenced by '' @ join '', '' (map backquote (butlast rs))
             @ '', and `'' @ last rs @ ''` but not included in the graph.'')))
   \<and> (2 \<le> length (bad_edges g) \<longrightarrow>
        validate_edges g = Inl (PyExc GraphSetupError
          (''Nodes are referenced in the graph but not included in the graph:''
             @ concat (map (\<lambda>(x, rs). [CHR 0x0A] @ '' `'' @ x @ ''` is referenced by ''
                  @ comma_and (map backquote rs)) (bad_edges g)))))
   \<and> distinct (map fst (bad_edges g))
   \<and> fst ` set (bad_edges g) = (\<Union>(n, es) \<in> set g. set es) - fst ` set g
   \<and> (\<forall>(x, rs) \<in> set (bad_edges g). rs = referrers g x \<and> rs \<noteq> [])"
proof -
  have one: "bad_edges g = [(x, [y])] \<longrightarrow>
        validate_edges g = Inl (PyExc GraphSetupError
          (''`'' @ x @ ''` is referenced by `'' @ y @ ''` but not included in the graph.''))"
    using validate_edges_one [of g x "[y]"] by (simp add: comma_and_def backquote_def)
  have more: "bad_edges g = [(x, rs)] \<and> 2 \<le> length rs \<longrightarrow>
        validate_edges g = Inl (PyExc GraphSetupError
          (''`'' @ x @ ''` is referenced by '' @ join '', '' (map backquote (butlast rs))
             @ '', and `'' @ last rs @ ''` but not included in the graph.''))"
  proof
    assume a: "bad_edges g = [(x, rs)] \<and> 2 \<le> length rs"
    then have "rs \<noteq> []" "length rs \<noteq> 1"
      by auto
    then have "comma_and (map backquote rs)
        = join '', '' (map backquote (butlast rs)) @ '', and `'' @ last rs @ ''`''"
      by (simp add: comma_and_def map_butlast last_map backquote_def)
    with a validate_edges_one [of g x rs] show "validate_edges g = Inl (PyExc GraphSetupError
          (''`'' @ x @ ''` is referenced by '' @ join '', '' (map backquote (butlast rs))
             @ '', and `'' @ last rs @ ''` but not included in the graph.''))"
      by simp
  qed
  have refs: "\<forall>(x, rs) \<in> set (bad_edges g). rs = referrers g x \<and> rs \<noteq> []"
    using bad_edges_referrers [of _ _ g] by auto
  have d: "distinct (map fst (bad_edges g))"
    using bad_edges_props [of g undefined] by simp
  show ?thesis
    using validate_edges_ok [of g] one more validate_edges_many [of g] d keys_bad_edges [of g] refs
    by blast
qed

theorem missing_reference_messages_witness:
  "validate_edges [(''Float2String'', [''String2Length''])] = Inl (PyExc GraphSetupError
      ''`String2Length` is referenced by `Float2String` but not included in the graph.'')
   \<and> validate_edges [(''Foo'', [''Eggs'']), (''Bar'', [''Eggs'']), (''Spam'', [''Eggs''])]
      = Inl (PyExc GraphSetupError
      ''`Eggs` is referenced by `Foo`, `Bar`, and `Spam` but not included in the graph.'')
   \<and> validate_edges [(''Foo'', [''Bar'', ''Spam''])] = Inl (PyExc GraphSetupError
      (''Nodes are referenced in the graph but not included in the graph:'' @ [CHR 0x0A]
         @ '' `Bar` is referenced by `Foo`'' @ [CHR 0x0A] @ '' `Spam` is referenced by `Foo`''))"
proof -
  have b1: "bad_edges [(''Float2String'', [''String2Length''])]
      = [(''String2Length'', [''Float2String''])]"
    by (simp add: bad_edges_def)
  have b2: "bad_edges [(''Foo'', [''Eggs'']), (''Bar'', [''Eggs'']), (''Spam'', [''Eggs''])]
      = [(''Eggs'', [''Foo'', ''Bar'', ''Spam''])]"
    by (simp add: bad_edges_def)
  have b3: "bad_edges [(''Foo'', [''Bar'', ''Spam''])] = [(''Bar'', [''Foo'']), (''Spam'', [''Foo''])]"
    by (simp add: bad_edges_def)
  from missing_reference_messages
    [of "[(''Float2String'', [''String2Length''])]" "''String2Length''" "''Float2String''" "[]"]
  have t1: "validate_edges [(''Float2String'', [''String2Length''])] = Inl (PyExc GraphSetupError
      ''`String2Length` is referenced by `Float2String` but not included in the graph.'')"
    by (simp add: b1)
  from missing_reference_messages
    [of "[(''Foo'', [''Eggs'']), (''Bar'', [''Eggs'']), (''Spam'', [''Eggs''])]" "''Eggs''" "''x''"
        "[''Foo'', ''Bar'', ''Spam'']"]
  have t2: "validate_edges [(''Foo'', [''Eggs'']), (''Bar'', [''Eggs'']), (''Spam'', [''Eggs''])]
      = Inl (PyExc GraphSetupError
      ''`Eggs` is referenced by `Foo`, `Bar`, and `Spam` but not included in the graph.'')"
    by (simp add: b2 backquote_def)
  from missing_reference_messages [of "[(''Foo'', [''Bar'', ''Spam''])]" "''x''" "''y''" "[]"]
  have t3: "validate_edges [(''Foo'', [''Bar'', ''Spam''])] = Inl (PyExc GraphSetupError
      (''Nodes are referenced in the graph but not included in the graph:'' @ [CHR 0x0A]
         @ '' `Bar` is referenced by `Foo`'' @ [CHR 0x0A] @ '' `Spam` is referenced by `Foo`''))"
    by (simp add: b3 comma_and_def backquote_def)
  from t1 t2 t3 show ?thesis
    by simp
qed

subsection \<open>A node that raises\<close>




text \<open>
  The bound on the identifiers of the history is needed. A history given to the constructor
  can hold, with the allocator at 0, a snapshot that was given the identifier \<^verbatim>\<open>Spam:2\<close> by
  hand: the run of \<^verbatim>\<open>test_node_error\<close> then gives \<^verbatim>\<open>Spam:2\<close> to the snapshot of the step
  that fails, \<^verbatim>\<open>record_run\<close> finds the first snapshot of this identifier, the old one, and
  marks it, and the snapshot of the failed step stays created.
\<close>

lemma test_node_error_stale_identifier:
  "map_option (\<lambda>(res, self', a', st'). (res, map id_of (history self'),
        map node_status (history self')))
     (graph_run (Suc (Suc 0)) (test_error_graph (PyExc RuntimeError ''test error'')) test_clock 0 0
        ((FullStatePersistence_new :: unit FullStatePersistence)\<lparr>history :=
           [NodeSnap \<lparr>state = None, node = 0, start_ts = None, duration = None,
              status = created, snapshot_id = ''Spam:2''\<rparr>]\<rparr>) None 0
        (\<lparr>states = [], nodes = [(''Foo'', ())], ends = []\<rparr> :: (unit, unit, int) store))
   = Some (NodeError (PyExc RuntimeError ''test error''), [''Spam:2'', ''Foo:1'', ''Spam:2''],
       [Some error, Some success, Some created])"
  by (simp add: test_error_graph_def test_clock_def FullStatePersistence_new_def allocate_def
      snapshot_node_full_def prep_state_def prep_node_def deep_copy_node_def
      new_NodeSnapshot_def generate_snapshot_id_def str_nat.simps digit_char_def
      record_run_full_def record_run_enter_full_def record_run_exit_full_def)




subsection \<open>The JSON round trip\<close>

lemma parse_status_str: "parse_status (status_str v) = Some v"
  by (cases v) (simp_all add: parse_status_def)

lemma filter_node_id:
  assumes "''node_id'' \<notin> set (map fst fs)"
  shows "filter (\<lambda>kv. fst kv \<noteq> ''node_id'') fs = fs"
  using assms by (induction fs) auto

lemma dec_enc_entry:
  assumes "codec_ok c e"
  shows "dec_entry c (enc_entry c e) = Some e"
proof (cases e)
  case (NodeEntry s nid p t d v i)
  with assms have ok: "dec_state c (enc_state c s) = Some s"
      "dec_node c nid (enc_node c nid p) = Some p"
      "''node_id'' \<notin> set (map fst (enc_node c nid p))"
      "case t of None \<Rightarrow> True | Some x \<Rightarrow> dec_ts c (enc_ts c x) = Some x"
    by simp_all
  have t: "dec_opt_ts c (case t of None \<Rightarrow> JNull | Some x \<Rightarrow> JString (enc_ts c x)) = Some t"
    using ok(4) by (cases t) simp_all
  have d: "dec_opt_number (case d of None \<Rightarrow> JNull | Some x \<Rightarrow> JNumber x) = Some d"
    by (cases d) simp_all
  have i: "dec_opt_id (case i of None \<Rightarrow> JNull | Some x \<Rightarrow> JString x) = Some i"
    by (cases i) simp_all
  show ?thesis
    by (simp add: NodeEntry member_def dec_node_entry_def ok(1,2) filter_node_id [OF ok(3)]
        t d i parse_status_str)
next
  case (EndEntry s r t i)
  with assms have ok: "dec_state c (enc_state c s) = Some s"
      "dec_data c (enc_data c r) = Some r" "dec_ts c (enc_ts c t) = Some t"
    by simp_all
  have i: "dec_opt_id (case i of None \<Rightarrow> JNull | Some x \<Rightarrow> JString x) = Some i"
    by (cases i) simp_all
  show ?thesis
    by (simp add: EndEntry member_def dec_end_entry_def ok i)
qed

lemma those_dec_enc:
  assumes "\<forall>e \<in> set es. codec_ok c e"
  shows "those (map (dec_entry c) (map (enc_entry c) es)) = Some es"
  using assms by (induction es) (simp_all add: dec_enc_entry)

lemma view_append:
  assumes "valid_refs st snap" and "states st' = states st @ xs"
    and "nodes st' = nodes st @ ys" and "ends st' = ends st @ zs"
  shows "view st' snap = view st snap \<and> valid_refs st' snap"
  using assms by (cases snap) (auto simp: nth_append split: option.splits)

lemma load_entry_view:
  assumes "entry_id e \<noteq> None" and "list_all (valid_refs st) h"
  shows "\<exists>snap st'. load_entry e (h, n, st) = (h @ [snap], n, st')
     \<and> view st' snap = e \<and> list_all (valid_refs st') (h @ [snap])
     \<and> map (view st') h = map (view st) h"
proof (cases e)
  case (NodeEntry s nid p t d v i)
  with assms(1) obtain sid where i: "i = Some sid"
    by auto
  obtain sref st1 where s1: "new_state s st = (sref, st1)"
    by (cases "new_state s st")
  then have st1: "states st1 = states st @ (case s of None \<Rightarrow> [] | Some x \<Rightarrow> [x])"
      "nodes st1 = nodes st" "ends st1 = ends st"
      "map_option (\<lambda>r. states st1 ! r) sref = s"
      "case sref of None \<Rightarrow> True | Some r \<Rightarrow> r < length (states st1)"
    by (auto simp: new_state_def split: option.splits)
  let ?st = "st1\<lparr>nodes := nodes st1 @ [(nid, p)]\<rparr>"
  let ?snap = "NodeSnap \<lparr>state = sref, node = length (nodes st1), start_ts = t, duration = d,
                status = v, snapshot_id = sid\<rparr>"
  have l: "load_entry e (h, n, st) = (h @ [?snap], n, ?st)"
    by (simp add: NodeEntry i s1 id_on_load_def)
  have v: "view ?st ?snap = e"
    using st1(4) by (simp add: NodeEntry i)
  have vr: "valid_refs ?st ?snap"
    using st1(5) by (simp split: option.splits)
  have old: "\<forall>x \<in> set h. view ?st x = view st x \<and> valid_refs ?st x"
  proof
    fix x assume "x \<in> set h"
    with assms(2) have "valid_refs st x"
      by (simp add: list_all_iff)
    then show "view ?st x = view st x \<and> valid_refs ?st x"
      by (rule view_append) (simp_all add: st1)
  qed
  from l v vr old show ?thesis
    by (simp add: list_all_iff)
next
  case (EndEntry s r t i)
  with assms(1) obtain sid where i: "i = Some sid"
    by auto
  obtain sref st1 where s1: "new_state s st = (sref, st1)"
    by (cases "new_state s st")
  then have st1: "states st1 = states st @ (case s of None \<Rightarrow> [] | Some x \<Rightarrow> [x])"
      "nodes st1 = nodes st" "ends st1 = ends st"
      "map_option (\<lambda>r. states st1 ! r) sref = s"
      "case sref of None \<Rightarrow> True | Some r \<Rightarrow> r < length (states st1)"
    by (auto simp: new_state_def split: option.splits)
  let ?st = "st1\<lparr>ends := ends st1 @ [r]\<rparr>"
  let ?snap = "EndSnap \<lparr>end_state = sref, result = length (ends st1), ts = t,
                end_snapshot_id = sid\<rparr>"
  have l: "load_entry e (h, n, st) = (h @ [?snap], n, ?st)"
    by (simp add: EndEntry i s1 id_on_load_def)
  have v: "view ?st ?snap = e"
    using st1(4) by (simp add: EndEntry i)
  have vr: "valid_refs ?st ?snap"
    using st1(5) by (simp split: option.splits)
  have old: "\<forall>x \<in> set h. view ?st x = view st x \<and> valid_refs ?st x"
  proof
    fix x assume "x \<in> set h"
    with assms(2) have "valid_refs st x"
      by (simp add: list_all_iff)
    then show "view ?st x = view st x \<and> valid_refs ?st x"
      by (rule view_append) (simp_all add: st1)
  qed
  from l v vr old show ?thesis
    by (simp add: list_all_iff)
qed

lemma load_entries_view:
  assumes "\<forall>e \<in> set es. entry_id e \<noteq> None" and "list_all (valid_refs st) h"
  shows "\<exists>h' st'. load_entries es (h, n, st) = (h', n, st')
     \<and> map (view st') h' = map (view st) h @ es"
  using assms
proof (induction es arbitrary: h st)
  case Nil
  then show ?case by simp
next
  case (Cons e es)
  from Cons.prems have "entry_id e \<noteq> None"
    by simp
  from load_entry_view [OF this Cons.prems(2), of n]
  obtain snap st1 where s: "load_entry e (h, n, st) = (h @ [snap], n, st1)"
      "view st1 snap = e" "list_all (valid_refs st1) (h @ [snap])"
      "map (view st1) h = map (view st) h"
    by blast
  from Cons.prems(1) have "\<forall>e \<in> set es. entry_id e \<noteq> None"
    by simp
  from Cons.IH [OF this s(3)]
  obtain h' st' where h: "load_entries es (h @ [snap], n, st1) = (h', n, st')"
      "map (view st') h' = map (view st1) (h @ [snap]) @ es"
    by blast
  from s h show ?case
    by simp
qed

lemma entry_id_view: "entry_id (view st snap) = Some (id_of snap)"
  by (cases snap) simp_all

text \<open>
  Claim C3. Let a \<^verbatim>\<open>FullStatePersistence\<close> have its type adapter set, for a codec that
  round-trips the states, node payloads, end values and timestamps of its history. Then
  \<^verbatim>\<open>dump_json\<close> returns a document, and \<^verbatim>\<open>load_json\<close> of this document into a
  persistence with the same adapter, at any count of the identifier allocator, succeeds and
  yields a history equal to the dumped one,
  snapshot by snapshot and field by field (the objects are new, their values the same), with
  the identifiers of the document.
\<close>

theorem json_round_trip:
  fixes self self2 :: "('s, 'p, 'd) TypeAdapter FullStatePersistence"
  assumes "snapshots_type_adapter self = Some (snapshot_list_adapter c)"
    and "snapshots_type_adapter self2 = Some (snapshot_list_adapter c)"
    and "\<forall>snap \<in> set (history self). codec_ok c (view st snap)"
  shows "\<exists>doc. dump_json self indent st = Inr doc
     \<and> fst (load_json self2 doc a st2) = None
     \<and> map (view (snd (snd (snd (load_json self2 doc a st2)))))
           (history (fst (snd (load_json self2 doc a st2))))
         = map (view st) (history self)
     \<and> map id_of (history (fst (snd (load_json self2 doc a st2))))
         = map id_of (history self)"
proof -
  let ?es = "map (view st) (history self)"
  let ?doc = "JArray (map (enc_entry c) ?es)"
  have d: "dump_json self indent st = Inr ?doc"
    by (simp add: dump_json_def assms(1) snapshot_list_adapter_def)
  have ok: "\<forall>e \<in> set ?es. codec_ok c e"
    using assms(3) by simp
  have ids: "\<forall>e \<in> set ?es. entry_id e \<noteq> None"
    by (simp add: entry_id_view)
  from load_entries_view [OF ids, of st2 "[]" "doc_max ?es a"]
  obtain h' st' where h: "load_entries ?es ([], doc_max ?es a, st2) = (h', doc_max ?es a, st')"
      "map (view st') h' = ?es"
    by auto
  have l: "load_json self2 ?doc a st2 = (None, self2\<lparr>history := h'\<rparr>, doc_max ?es a, st')"
    using those_dec_enc [OF ok] h(1)
    by (simp add: load_json_def assms(2) snapshot_list_adapter_def)
  have "map (\<lambda>e. the (entry_id e)) (map (view st') h') = map (\<lambda>e. the (entry_id e)) ?es"
    using h(2) by simp
  then have "map id_of h' = map id_of (history self)"
    by (simp add: entry_id_view comp_def)
  with d l h(2) show ?thesis
    by simp
qed

theorem json_round_trip_witness:
  "\<exists>doc. dump_json test_persistence None test_store = Inr doc
     \<and> fst (load_json
          (FullStatePersistence_new\<lparr>snapshots_type_adapter := Some (snapshot_list_adapter test_codec)\<rparr>)
          doc 3 \<lparr>states = [], nodes = [], ends = []\<rparr>) = None
     \<and> map (view (snd (snd (snd (load_json
          (FullStatePersistence_new\<lparr>snapshots_type_adapter := Some (snapshot_list_adapter test_codec)\<rparr>)
          doc 3 \<lparr>states = [], nodes = [], ends = []\<rparr>)))))
           (history (fst (snd (load_json
          (FullStatePersistence_new\<lparr>snapshots_type_adapter := Some (snapshot_list_adapter test_codec)\<rparr>)
          doc 3 \<lparr>states = [], nodes = [], ends = []\<rparr>))))
         = [NodeEntry (Some (1, '''')) ''Foo'' () (Some 1735689600000000) (Some (1 / 2)) success
              (Some ''Foo:1''),
            NodeEntry (Some (2, '''')) ''Bar'' () (Some 1735689600000000) (Some (1 / 4)) success
              (Some ''Bar:2''),
            EndEntry (Some (2, ''y'')) 4 1735689600000000 (Some ''end:3'')]"
proof -
  have a: "snapshots_type_adapter test_persistence = Some (snapshot_list_adapter test_codec)"
    by (simp add: test_persistence_def)
  have b: "snapshots_type_adapter
      (FullStatePersistence_new\<lparr>snapshots_type_adapter := Some (snapshot_list_adapter test_codec)\<rparr>)
      = Some (snapshot_list_adapter test_codec)"
    by simp
  have v: "map (view test_store) (history test_persistence)
      = [NodeEntry (Some (1, '''')) ''Foo'' () (Some 1735689600000000) (Some (1 / 2)) success
              (Some ''Foo:1''),
            NodeEntry (Some (2, '''')) ''Bar'' () (Some 1735689600000000) (Some (1 / 4)) success
              (Some ''Bar:2''),
            EndEntry (Some (2, ''y'')) 4 1735689600000000 (Some ''end:3'')]"
    by (simp add: test_persistence_def test_store_def)
  have "list_all (codec_ok test_codec) (map (view test_store) (history test_persistence))"
    unfolding v by (simp add: test_codec_def member_def)
  then have c: "\<forall>snap \<in> set (history test_persistence). codec_ok test_codec (view test_store snap)"
    by (simp add: list_all_iff)
  let ?sp2 = "FullStatePersistence_new
      \<lparr>snapshots_type_adapter := Some (snapshot_list_adapter test_codec)\<rparr>"
  let ?st2 = "\<lparr>states = [], nodes = [], ends = []\<rparr> :: (int \<times> string, unit, int) store"
  from json_round_trip [OF a b c, of None 3 ?st2]
  obtain doc where doc: "dump_json test_persistence None test_store = Inr doc"
      "fst (load_json ?sp2 doc 3 ?st2) = None"
      "map (view (snd (snd (snd (load_json ?sp2 doc 3 ?st2)))))
           (history (fst (snd (load_json ?sp2 doc 3 ?st2))))
         = map (view test_store) (history test_persistence)"
    by (elim exE conjE)
  from doc(1) doc(2) doc(3) [unfolded v] show ?thesis
    by (intro exI [of _ doc] conjI)
qed

end

